theory Spec2Isabelle
  imports Complex_Main "HOL-Library.Word"
begin

section \<open>Python values shared by both scripts\<close>

text \<open>
  An exception is a value: its class name and its message. The first constructor stands
  for the classes that derive from \<open>Exception\<close> (what \<open>except Exception\<close> catches), the
  second for the other \<open>BaseException\<close> classes (\<open>KeyboardInterrupt\<close>, \<open>SystemExit\<close>),
  which only a bare \<open>except:\<close> catches.
\<close>

datatype exn = Exception string string | BaseException string string

definition ZeroDivisionError :: exn where
  "ZeroDivisionError = Exception ''ZeroDivisionError'' ''division by zero''"

fun is_Exception :: "exn \<Rightarrow> bool" where
  "is_Exception (Exception c m) = True"
| "is_Exception (BaseException c m) = False"

text \<open>\<open>str(e)\<close>, as the f-strings of the script print it.\<close>

fun exn_str :: "exn \<Rightarrow> string" where
  "exn_str (Exception c m) = m"
| "exn_str (BaseException c m) = m"

text \<open>
  A floating-point number of the scripts is a binary64 value, here the real number it
  stands for. \<open>fl\<close> rounds a real number to the nearest binary64 value, ties to even:
  53 significant bits, least exponent \<open>- 1022\<close> with gradual underflow below it; no
  number of the scripts comes near the overflow threshold. The quotient \<open>72 / dpi\<close>, the
  products that convert pixels to points, the quotients of the checkbox measures and the
  sample coordinates along a line are \<open>fl\<close> of the exact result, as in IEEE 754. The
  results of \<open>np.arctan2\<close> with its conversion to degrees, of \<open>np.mean\<close> and of
  \<open>np.std\<close> are taken to be the exact values, and so are differences and comparisons.
\<close>

definition round_half_even :: "real \<Rightarrow> int" where
  "round_half_even r =
     (let f = \<lfloor>r\<rfloor> in
      if r - of_int f < 1 / 2 then f
      else if 1 / 2 < r - of_int f then f + 1
      else if even f then f else f + 1)"

definition ulp :: "real \<Rightarrow> real" where
  "ulp x = 2 powr (real_of_int (max \<lfloor>log 2 \<bar>x\<bar>\<rfloor> (- 1022)) - 52)"

definition fl :: "real \<Rightarrow> real" where
  "fl x = (if x = 0 then 0 else real_of_int (round_half_even (x / ulp x)) * ulp x)"

text \<open>
  \<open>round(x, n)\<close> of a NumPy \<open>float64\<close> scales by the power of ten, rounds to an
  integer (ties to even) and divides again, each step in binary64. \<open>round(x, n)\<close> of a
  Python \<open>float\<close> rounds the exact value of \<open>x\<close> to \<open>n\<close> decimals (ties to even) and
  returns the nearest binary64 value. \<open>int(x)\<close> truncates towards zero.
\<close>

definition np_round :: "real \<Rightarrow> nat \<Rightarrow> real" where
  "np_round x decimals =
     fl (real_of_int (round_half_even (fl (x * 10 ^ decimals))) / 10 ^ decimals)"

definition py_round :: "real \<Rightarrow> nat \<Rightarrow> real" where
  "py_round x ndigits = fl (real_of_int (round_half_even (x * 10 ^ ndigits)) / 10 ^ ndigits)"

definition py_int :: "real \<Rightarrow> int" where
  "py_int r = (if 0 \<le> r then \<lfloor>r\<rfloor> else \<lceil>r\<rceil>)"

text \<open>\<open>points_per_pixel = 72 / dpi\<close>: Python raises on a zero divisor.\<close>

definition points_per_pixel :: "int \<Rightarrow> exn + real" where
  "points_per_pixel dpi =
     (if dpi = 0 then Inl ZeroDivisionError else Inr (fl (72 / real_of_int dpi)))"

section \<open>Images\<close>

text \<open>
  A grayscale page is a two-dimensional \<open>uint8\<close> array: its shape and the pixel at
  row \<open>y\<close>, column \<open>x\<close>. A colour page holds a (blue, green, red) triple per pixel.
\<close>

record gray_image =
  shape0 :: nat
  shape1 :: nat
  pixel :: "nat \<Rightarrow> nat \<Rightarrow> 8 word"

record bgr_image =
  height :: nat
  width :: nat
  bgr :: "nat \<Rightarrow> nat \<Rightarrow> 8 word \<times> 8 word \<times> 8 word"

section \<open>Line detection (visualParser.py, detect\_lines and detect\_line\_style)\<close>

text \<open>
  A segment of \<open>cv2.HoughLinesP\<close> is a row \<open>x1, y1, x2, y2\<close> of an \<open>int32\<close> array;
  differences of its entries wrap around at 32 bits.
\<close>

type_synonym segment = "32 word \<times> 32 word \<times> 32 word \<times> 32 word"

definition num_samples :: nat where
  "num_samples = 20"

text \<open>
  \<open>int(a + t * (b - a))\<close> with \<open>t = i / (num_samples - 1)\<close>: the difference is an
  \<open>int32\<close>, the quotient, the product and the sum are binary64.
\<close>

definition sample_coord :: "32 word \<Rightarrow> 32 word \<Rightarrow> nat \<Rightarrow> int" where
  "sample_coord a b i =
     (let t = fl (real i / real (num_samples - 1))
      in py_int (fl (real_of_int (sint a) + fl (t * real_of_int (sint (b - a))))))"

definition dark_sample :: "gray_image \<Rightarrow> segment \<Rightarrow> nat \<Rightarrow> bool" where
  "dark_sample gray_image seg i =
     (case seg of (x1, y1, x2, y2) \<Rightarrow>
        let x = sample_coord x1 x2 i; y = sample_coord y1 y2 i
        in 0 \<le> x \<and> x < int (shape1 gray_image) \<and> 0 \<le> y \<and> y < int (shape0 gray_image)
           \<and> pixel gray_image (nat y) (nat x) < 128)"

definition black_count :: "gray_image \<Rightarrow> segment \<Rightarrow> nat" where
  "black_count gray_image seg =
     foldl (\<lambda>cnt i. if dark_sample gray_image seg i then cnt + 1 else cnt) 0 [0..<num_samples]"

definition detect_line_style :: "gray_image \<Rightarrow> segment \<Rightarrow> string" where
  "detect_line_style gray_image seg =
     (if real (black_count gray_image seg) / real num_samples < 7 / 10
      then ''dotted'' else ''solid'')"

text \<open>\<open>np.arctan2(y, x)\<close> on the reals: the angle of the point \<open>(x, y)\<close> in \<open>(-pi, pi]\<close>.\<close>

definition arctan2 :: "real \<Rightarrow> real \<Rightarrow> real" where
  "arctan2 y x =
     (if 0 < x then arctan (y / x)
      else if x < 0 then (if 0 \<le> y then arctan (y / x) + pi else arctan (y / x) - pi)
      else if 0 < y then pi / 2
      else if y < 0 then - (pi / 2)
      else 0)"

definition segment_angle :: "segment \<Rightarrow> real" where
  "segment_angle seg =
     (case seg of (x1, y1, x2, y2) \<Rightarrow>
        arctan2 (real_of_int (sint (y2 - y1))) (real_of_int (sint (x2 - x1))) * 180 / pi)"

definition orientation_of :: "real \<Rightarrow> string" where
  "orientation_of angle =
     (if \<bar>angle\<bar> < 10 \<or> \<bar>angle - 180\<bar> < 10 then ''horizontal''
      else if \<bar>angle - 90\<bar> < 10 \<or> \<bar>angle + 90\<bar> < 10 then ''vertical''
      else ''diagonal'')"

record line_position =
  lx1 :: real
  ly1 :: real
  lx2 :: real
  ly2 :: real
  line_units :: string

text \<open>
  The line record of the script. The coordinates are products of an \<open>int32\<close> and a
  Python \<open>float\<close>, hence NumPy \<open>float64\<close> values, as is the angle. The \<open>length\<close> entry
  is computed from squares of \<open>int32\<close> differences, whose width depends on the NumPy
  version; no property below reads it and the record leaves it out.
\<close>

record line_record =
  line_element_type :: string
  orientation :: string
  line_style :: string
  line_position :: line_position
  angle :: real

definition line_entry :: "gray_image \<Rightarrow> real \<Rightarrow> segment \<Rightarrow> line_record" where
  "line_entry gray_image ppp seg =
     (case seg of (x1, y1, x2, y2) \<Rightarrow>
        let x1_pt = fl (real_of_int (sint x1) * ppp);
            y1_pt = fl (real_of_int (sint y1) * ppp);
            x2_pt = fl (real_of_int (sint x2) * ppp);
            y2_pt = fl (real_of_int (sint y2) * ppp);
            ang = segment_angle seg
        in \<lparr> line_element_type = ''line'',
             orientation = orientation_of ang,
             line_style = detect_line_style gray_image seg,
             line_position = \<lparr> lx1 = np_round x1_pt 2, ly1 = np_round y1_pt 2,
                                lx2 = np_round x2_pt 2, ly2 = np_round y2_pt 2,
                                line_units = ''points'' \<rparr>,
             angle = np_round ang 2 \<rparr>)"

text \<open>The loop over the segments; \<open>72 / dpi\<close> is evaluated in every iteration.\<close>

fun lines_loop :: "gray_image \<Rightarrow> int \<Rightarrow> line_record list \<Rightarrow> segment list \<Rightarrow> exn + line_record list" where
  "lines_loop gray_image dpi lines_data [] = Inr lines_data"
| "lines_loop gray_image dpi lines_data (seg # rest) =
     (case points_per_pixel dpi of
        Inl e \<Rightarrow> Inl e
      | Inr ppp \<Rightarrow> lines_loop gray_image dpi (lines_data @ [line_entry gray_image ppp seg]) rest)"

text \<open>
  \<open>detect_lines\<close>, given what \<open>cv2.Canny\<close> followed by \<open>cv2.HoughLinesP\<close> returns on
  the image: an exception, \<open>None\<close>, or the array of segments.
\<close>

definition detect_lines :: "(gray_image \<Rightarrow> exn + segment list option) \<Rightarrow> gray_image \<Rightarrow> int \<Rightarrow> exn + line_record list" where
  "detect_lines HoughLinesP gray_image dpi =
     (case HoughLinesP gray_image of
        Inl e \<Rightarrow> Inl e
      | Inr None \<Rightarrow> Inr []
      | Inr (Some lines) \<Rightarrow> lines_loop gray_image dpi [] lines)"

section \<open>Checkbox detection (visualParser.py, detect\_checkboxes)\<close>

text \<open>
  \<open>cv2.matchTemplate\<close> returns a two-dimensional array of scores. A contour comes with
  what OpenCV measures on it: the number of corners of \<open>cv2.approxPolyDP\<close>, the
  rectangle \<open>x, y, w, h\<close> of \<open>cv2.boundingRect\<close> and the area of \<open>cv2.contourArea\<close>.
\<close>

record match_result =
  res_rows :: nat
  res_cols :: nat
  res_at :: "nat \<Rightarrow> nat \<Rightarrow> real"

record contour =
  approx_len :: nat
  bounding_rect :: "nat \<times> nat \<times> nat \<times> nat"
  contour_area :: real

record cb_position =
  cb_x :: real
  cb_y :: real
  cb_width :: real
  cb_height :: real
  cb_units :: string

record cb_properties =
  aspect_ratio :: real
  extent :: real
  area :: real
  interior_brightness :: real

text \<open>
  A checkbox record has a \<open>confidence\<close> entry when it comes from template matching and
  a \<open>properties\<close> entry when it comes from contour analysis.
\<close>

record checkbox =
  cb_element_type :: string
  detection_method :: string
  cb_position :: cb_position
  confidence :: "real option"
  properties :: "cb_properties option"

definition template_size :: nat where
  "template_size = 20"

definition threshold :: real where
  "threshold = 6 / 10"

text \<open>
  \<open>np.where(result >= threshold)\<close> lists the indices row by row; the loop visits them
  as points \<open>(x, y)\<close> of NumPy integers, so that the position of a match is a NumPy
  \<open>float64\<close>; the size of the template is a Python \<open>float\<close>.
\<close>

definition locations :: "match_result \<Rightarrow> (nat \<times> nat) list" where
  "locations result =
     concat (map (\<lambda>y. map (\<lambda>x. (x, y))
                          (filter (\<lambda>x. threshold \<le> res_at result y x) [0..<res_cols result]))
                 [0..<res_rows result])"

definition template_entry :: "match_result \<Rightarrow> real \<Rightarrow> nat \<times> nat \<Rightarrow> checkbox" where
  "template_entry result ppp pt =
     \<lparr> cb_element_type = ''checkbox'',
       detection_method = ''template_matching'',
       cb_position = \<lparr> cb_x = np_round (fl (real (fst pt) * ppp)) 2,
                       cb_y = np_round (fl (real (snd pt) * ppp)) 2,
                       cb_width = py_round (fl (real template_size * ppp)) 2,
                       cb_height = py_round (fl (real template_size * ppp)) 2,
                       cb_units = ''points'' \<rparr>,
       confidence = Some (res_at result (snd pt) (fst pt)),
       properties = None \<rparr>"

text \<open>
  The slice \<open>a[y0:y1, x0:x1]\<close> with indices that are not negative, flattened; its
  length is \<open>roi.size\<close>. \<open>np.mean\<close> is only taken of a slice that is not empty.
\<close>

definition slice2 :: "gray_image \<Rightarrow> nat \<Rightarrow> nat \<Rightarrow> nat \<Rightarrow> nat \<Rightarrow> 8 word list" where
  "slice2 g y0 y1 x0 x1 =
     concat (map (\<lambda>yy. map (\<lambda>xx. pixel g yy xx) [min x0 (shape1 g)..<min x1 (shape1 g)])
                 [min y0 (shape0 g)..<min y1 (shape0 g)])"

definition np_mean :: "real list \<Rightarrow> real" where
  "np_mean vs = sum_list vs / real (length vs)"

definition contour_entry :: "gray_image \<Rightarrow> real \<Rightarrow> contour \<Rightarrow> checkbox list" where
  "contour_entry gray_image ppp c =
     (if approx_len c = 4 then
        (case bounding_rect c of (x, y, w, h) \<Rightarrow>
           let area = contour_area c;
               aspect_ratio = (if h \<noteq> 0 then fl (real w / real h) else 0);
               extent = (if w * h \<noteq> 0 then fl (area / real (w * h)) else 0)
           in if 15 \<le> w \<and> w \<le> 35 \<and> 15 \<le> h \<and> h \<le> 35 \<and>
                 fl (8 / 10) \<le> aspect_ratio \<and> aspect_ratio \<le> fl (12 / 10) \<and>
                 fl (7 / 10) \<le> extent \<and> extent \<le> 1 \<and>
                 200 \<le> area \<and> area \<le> 1000
              then
                (let roi = slice2 gray_image (y + 3) (y + h - 3) (x + 3) (x + w - 3)
                 in if length roi > 0 then
                      (let interior_mean = np_mean (map (\<lambda>p. real (unat p)) roi)
                       in if interior_mean > 200 then
                            [\<lparr> cb_element_type = ''checkbox'',
                               detection_method = ''contour_analysis'',
                               cb_position = \<lparr> cb_x = py_round (fl (real x * ppp)) 2,
                                               cb_y = py_round (fl (real y * ppp)) 2,
                                               cb_width = py_round (fl (real w * ppp)) 2,
                                               cb_height = py_round (fl (real h * ppp)) 2,
                                               cb_units = ''points'' \<rparr>,
                               confidence = None,
                               properties = Some \<lparr> aspect_ratio = py_round aspect_ratio 2,
                                                    extent = py_round extent 2,
                                                    area = py_round (fl (area * fl (ppp ^ 2))) 2,
                                                    interior_brightness = np_round interior_mean 1 \<rparr> \<rparr>]
                          else [])
                    else [])
              else [])
      else [])"

text \<open>The removal of duplicate detections: the inner loop, then the outer one.\<close>

definition same_position :: "checkbox \<Rightarrow> checkbox \<Rightarrow> bool" where
  "same_position cb existing =
     (\<bar>cb_x (cb_position cb) - cb_x (cb_position existing)\<bar> < 10 \<and>
      \<bar>cb_y (cb_position cb) - cb_y (cb_position existing)\<bar> < 10)"

fun is_duplicate :: "checkbox \<Rightarrow> checkbox list \<Rightarrow> bool" where
  "is_duplicate cb [] = False"
| "is_duplicate cb (existing # rest) =
     (if same_position cb existing then True else is_duplicate cb rest)"

fun unique_loop :: "checkbox list \<Rightarrow> checkbox list \<Rightarrow> checkbox list" where
  "unique_loop unique_checkboxes [] = unique_checkboxes"
| "unique_loop unique_checkboxes (cb # rest) =
     unique_loop (if is_duplicate cb unique_checkboxes then unique_checkboxes
                  else unique_checkboxes @ [cb]) rest"

text \<open>
  \<open>detect_checkboxes\<close>, given \<open>cv2.matchTemplate\<close> on the image and the fixed template,
  and the contours \<open>cv2.findContours\<close> reports on the cleaned image.
\<close>

definition detect_checkboxes ::
  "(gray_image \<Rightarrow> exn + match_result) \<Rightarrow> (gray_image \<Rightarrow> exn + contour list) \<Rightarrow>
   gray_image \<Rightarrow> int \<Rightarrow> exn + checkbox list" where
  "detect_checkboxes matchTemplate findContours gray_image dpi =
     (case points_per_pixel dpi of
        Inl e \<Rightarrow> Inl e
      | Inr ppp \<Rightarrow>
          (case matchTemplate gray_image of
             Inl e \<Rightarrow> Inl e
           | Inr result \<Rightarrow>
               (case findContours gray_image of
                  Inl e \<Rightarrow> Inl e
                | Inr contours \<Rightarrow>
                    Inr (unique_loop []
                           (map (template_entry result ppp) (locations result) @
                            concat (map (contour_entry gray_image ppp) contours))))))"

section \<open>Background colours (visualParser.py, detect\_background\_colors)\<close>

text \<open>\<open>range(0, stop, step)\<close> for a positive step.\<close>

definition range_step :: "int \<Rightarrow> nat \<Rightarrow> nat list" where
  "range_step stop step =
     (if stop \<le> 0 then []
      else map (\<lambda>k. k * step) [0..<nat ((stop + int step - 1) div int step)])"

definition grid_size :: nat where
  "grid_size = 100"

text \<open>\<open>img[y:y+grid_size, x:x+grid_size].reshape(-1, 3)\<close>: the pixels of the region.\<close>

definition region_pixels :: "bgr_image \<Rightarrow> nat \<Rightarrow> nat \<Rightarrow> (8 word \<times> 8 word \<times> 8 word) list" where
  "region_pixels img y x =
     concat (map (\<lambda>yy. map (\<lambda>xx. bgr img yy xx)
                            [min x (width img)..<min (x + grid_size) (width img)])
                 [min y (height img)..<min (y + grid_size) (height img)])"

definition np_std :: "real list \<Rightarrow> real" where
  "np_std vs = sqrt (np_mean (map (\<lambda>v. \<bar>v - np_mean vs\<bar> ^ 2) vs))"

type_synonym color = "real \<times> real \<times> real"
type_synonym region_position = "nat \<times> nat \<times> nat \<times> nat"

definition avg_color_of :: "(8 word \<times> 8 word \<times> 8 word) list \<Rightarrow> color" where
  "avg_color_of region =
     (np_mean (map (\<lambda>(b, g, r). real (unat b)) region),
      np_mean (map (\<lambda>(b, g, r). real (unat g)) region),
      np_mean (map (\<lambda>(b, g, r). real (unat r)) region))"

text \<open>The body of the two sampling loops: what one grid cell appends.\<close>

definition region_sample :: "bgr_image \<Rightarrow> nat \<Rightarrow> nat \<Rightarrow> (color \<times> region_position) list" where
  "region_sample img y x =
     (let region = region_pixels img y x
      in if length region > 0 then
           (case avg_color_of region of (c0, c1, c2) \<Rightarrow>
              if np_mean [c0, c1, c2] < 230 \<and> np_std [c0, c1, c2] > 10
              then [((c0, c1, c2), (x, y, grid_size, grid_size))]
              else [])
         else [])"

definition sample_regions :: "bgr_image \<Rightarrow> (color \<times> region_position) list" where
  "sample_regions img =
     concat (map (\<lambda>y. concat (map (\<lambda>x. region_sample img y x)
                                    (range_step (int (width img) - int grid_size) grid_size)))
                 (range_step (int (height img) - int grid_size) grid_size))"

text \<open>
  The call \<open>KMeans(n_clusters=..., random_state=42, n_init=10)\<close> followed by
  \<open>fit_predict(all_colors)\<close>, and what the script reads of the fitted estimator: one label
  per sample and one centre per cluster.
\<close>

record kmeans_call =
  n_clusters :: nat
  random_state :: nat
  n_init :: nat
  samples :: "color list"

record kmeans_fit =
  color_labels :: "nat \<Rightarrow> nat"
  cluster_centers :: "nat \<Rightarrow> color"

text \<open>
  The arguments of the clustering call the function makes on an image; \<open>None\<close> when it
  returns before clustering.
\<close>

definition kmeans_args :: "bgr_image \<Rightarrow> kmeans_call option" where
  "kmeans_args img =
     (let all_colors = map fst (sample_regions img)
      in if length all_colors < 2 then None
         else Some \<lparr> n_clusters = min 5 (length all_colors), random_state = 42, n_init = 10,
                     samples = all_colors \<rparr>)"

text \<open>\<open>"{:02x}".format(n)\<close>: lowercase hexadecimal, padded with zeros to two characters.\<close>

definition hex_digit :: "nat \<Rightarrow> char" where
  "hex_digit d = ''0123456789abcdef'' ! (d mod 16)"

fun hex_of_nat :: "nat \<Rightarrow> string" where
  "hex_of_nat n = (if n < 16 then [hex_digit n] else hex_of_nat (n div 16) @ [hex_digit (n mod 16)])"

declare hex_of_nat.simps [simp del]

definition format_02x :: "int \<Rightarrow> string" where
  "format_02x n =
     (if n < 0 then CHR ''-'' # hex_of_nat (nat (- n))
      else let s = hex_of_nat (nat n) in replicate (2 - length s) CHR ''0'' @ s)"

record bg_position =
  bg_x :: real
  bg_y :: real
  bg_width :: real
  bg_height :: real
  bg_units :: string

record bg_color =
  rgb :: "int list"
  hex :: string

record background_color =
  bg_element_type :: string
  bg_position :: bg_position
  color :: bg_color
  region_count :: nat

text \<open>The body of the loop over the cluster ids: what one cluster appends.\<close>

definition cluster_entry :: "real \<Rightarrow> region_position list \<Rightarrow> kmeans_fit \<Rightarrow> nat \<Rightarrow> background_color list" where
  "cluster_entry ppp positions fit cluster_id =
     (let cluster_positions =
            map (\<lambda>i. positions ! i)
                (filter (\<lambda>i. color_labels fit i = cluster_id) [0..<length positions])
      in if length cluster_positions > 2 then
           (case cluster_centers fit cluster_id of (c0, c1, c2) \<Rightarrow>
              let min_x = Min (set (map (\<lambda>(x, y, w, h). x) cluster_positions));
                  min_y = Min (set (map (\<lambda>(x, y, w, h). y) cluster_positions));
                  max_x = Max (set (map (\<lambda>(x, y, w, h). x + w) cluster_positions));
                  max_y = Max (set (map (\<lambda>(x, y, w, h). y + h) cluster_positions))
              in [\<lparr> bg_element_type = ''background_color'',
                    bg_position = \<lparr> bg_x = py_round (fl (real min_x * ppp)) 2,
                                    bg_y = py_round (fl (real min_y * ppp)) 2,
                                    bg_width = py_round (fl ((real max_x - real min_x) * ppp)) 2,
                                    bg_height = py_round (fl ((real max_y - real min_y) * ppp)) 2,
                                    bg_units = ''points'' \<rparr>,
                    color = \<lparr> rgb = [py_int c2, py_int c1, py_int c0],
                              hex = ''#'' @ format_02x (py_int c2) @ format_02x (py_int c1)
                                        @ format_02x (py_int c0) \<rparr>,
                    region_count = length cluster_positions \<rparr>])
         else [])"

text \<open>
  \<open>detect_background_colors\<close>, given what \<open>from sklearn.cluster import KMeans\<close> yields:
  an exception of the import, or the estimator. Whatever the clustering raises is dropped
  by the bare \<open>except\<close>, and the records collected so far (none) are returned.
\<close>

definition detect_background_colors ::
  "exn + (kmeans_call \<Rightarrow> exn + kmeans_fit) \<Rightarrow> bgr_image \<Rightarrow> int \<Rightarrow> exn + background_color list" where
  "detect_background_colors sklearn img dpi =
     (case sklearn of
        Inl e \<Rightarrow> Inl e
      | Inr KMeans \<Rightarrow>
          (case points_per_pixel dpi of
             Inl e \<Rightarrow> Inl e
           | Inr ppp \<Rightarrow>
               (case kmeans_args img of
                  None \<Rightarrow> Inr []
                | Some call \<Rightarrow>
                    (case KMeans call of
                       Inl e \<Rightarrow> Inr []
                     | Inr fit \<Rightarrow>
                         Inr (concat (map (cluster_entry ppp (map snd (sample_regions img)) fit)
                                          [0..<n_clusters call]))))))"

section \<open>Vector elements of the PDF (visualParser.py, extract\_pdf\_elements)\<close>

text \<open>\<open>str(n)\<close> of a natural number, as the f-strings of the scripts print it.\<close>

definition digit_char :: "nat \<Rightarrow> char" where
  "digit_char d = ''0123456789'' ! (d mod 10)"

fun show_nat :: "nat \<Rightarrow> string" where
  "show_nat n = (if n < 10 then [digit_char n] else show_nat (n div 10) @ [digit_char (n mod 10)])"

declare show_nat.simps [simp del]

text \<open>
  An item of a drawing is a tuple: the operator \<open>item[0]\<close> and the values after it,
  taken to be numbers. A drawing is read through its \<open>items\<close> only. A page is what its
  \<open>get_drawings()\<close> returns or raises, a document the list of its pages.
\<close>

record pdf_item =
  item_op :: string
  item_args :: "real list"

type_synonym drawing = "pdf_item list"
type_synonym fitz_page = "exn + drawing list"
type_synonym fitz_document = "fitz_page list"

datatype coordinates =
    LineCoordinates real real real real
  | RectangleCoordinates real real real real

record pdf_shape =
  shape_type :: string
  shape_coordinates :: coordinates
  shape_units :: string

text \<open>\<open>a, b, c, d = item[1:5]\<close>: the slice must hold exactly four values.\<close>

definition unpack4 :: "real list \<Rightarrow> exn + real \<times> real \<times> real \<times> real" where
  "unpack4 args =
     (case take 4 args of
        [a, b, c, d] \<Rightarrow> Inr (a, b, c, d)
      | short \<Rightarrow> Inl (Exception ''ValueError''
            (''not enough values to unpack (expected 4, got '' @ show_nat (length short) @ '')'')))"

fun items_loop :: "pdf_shape list \<Rightarrow> pdf_item list \<Rightarrow> exn + pdf_shape list" where
  "items_loop shapes [] = Inr shapes"
| "items_loop shapes (item # rest) =
     (if item_op item = ''l'' then
        (case unpack4 (item_args item) of
           Inl e \<Rightarrow> Inl e
         | Inr (x1, y1, x2, y2) \<Rightarrow>
             items_loop (shapes @ [\<lparr> shape_type = ''line'',
                 shape_coordinates = LineCoordinates (py_round x1 2) (py_round y1 2)
                                                     (py_round x2 2) (py_round y2 2),
                 shape_units = ''points'' \<rparr>]) rest)
      else if item_op item = ''re'' then
        (case unpack4 (item_args item) of
           Inl e \<Rightarrow> Inl e
         | Inr (x, y, w, h) \<Rightarrow>
             items_loop (shapes @ [\<lparr> shape_type = ''rectangle'',
                 shape_coordinates = RectangleCoordinates (py_round x 2) (py_round y 2)
                                                          (py_round w 2) (py_round h 2),
                 shape_units = ''points'' \<rparr>]) rest)
      else items_loop shapes rest)"

fun drawings_loop :: "pdf_shape list \<Rightarrow> drawing list \<Rightarrow> exn + pdf_shape list" where
  "drawings_loop shapes [] = Inr shapes"
| "drawings_loop shapes (drawing # rest) =
     (case items_loop shapes drawing of
        Inl e \<Rightarrow> Inl e
      | Inr shapes' \<Rightarrow> drawings_loop shapes' rest)"

definition extract_pdf_elements :: "fitz_page \<Rightarrow> exn + drawing list \<times> pdf_shape list" where
  "extract_pdf_elements page =
     (case page of
        Inl e \<Rightarrow> Inl e
      | Inr drawings \<Rightarrow>
          (case drawings_loop [] drawings of
             Inl e \<Rightarrow> Inl e
           | Inr shapes \<Rightarrow> Inr (drawings, shapes)))"

section \<open>The entry point (visualParser.py, detect\_lines\_and\_colors and the main block)\<close>

text \<open>
  What a run can change outside its return value: the lines printed, the number of
  document handles that are open, and the files written.
\<close>

record world =
  stdout :: "string list"
  open_documents :: nat
  files :: "string \<rightharpoonup> string"

text \<open>The \<open>results\<close> dictionary: each key holds a list of one kind of record.\<close>

datatype result_value =
    Lines "line_record list"
  | Colors "background_color list"
  | Checkboxes "checkbox list"
  | Drawings "drawing list"
  | Shapes "pdf_shape list"

type_synonym results = "string \<rightharpoonup> result_value"

text \<open>
  The libraries the script calls, as functions of their arguments. A page of
  \<open>convert_from_path\<close> is taken as the colour array the script makes of it, and
  \<open>cvtColor\<close> is the conversion of that array to grayscale. \<open>json_dump\<close> gives the text
  written to the file and the exception that ended the writing, if any.
\<close>

record libs =
  PYMUPDF_AVAILABLE :: bool
  convert_from_path :: "string \<Rightarrow> int \<Rightarrow> nat \<Rightarrow> nat \<Rightarrow> exn + bgr_image list"
  cvtColor :: "bgr_image \<Rightarrow> gray_image"
  HoughLinesP :: "gray_image \<Rightarrow> exn + segment list option"
  sklearn :: "exn + (kmeans_call \<Rightarrow> exn + kmeans_fit)"
  matchTemplate :: "gray_image \<Rightarrow> exn + match_result"
  findContours :: "gray_image \<Rightarrow> exn + contour list"
  fitz_open :: "string \<Rightarrow> exn + fitz_document"
  open_w :: "string \<Rightarrow> exn option"
  json_dump :: "results \<Rightarrow> string \<times> exn option"
  json_dumps :: "line_record \<Rightarrow> exn + string"

text \<open>The handler \<open>except Exception as e: print(f"PyMuPDF error: {e}")\<close>, then \<open>return results\<close>.\<close>

definition except_pymupdf :: "exn \<Rightarrow> results \<Rightarrow> world \<Rightarrow> (exn + results) \<times> world" where
  "except_pymupdf e results w =
     (if is_Exception e
      then (Inr results, w\<lparr> stdout := stdout w @ [''PyMuPDF error: '' @ exn_str e] \<rparr>)
      else (Inl e, w))"

text \<open>The body of the \<open>try\<close> of the second method, with its handler.\<close>

definition pymupdf_step :: "libs \<Rightarrow> string \<Rightarrow> nat \<Rightarrow> results \<Rightarrow> world \<Rightarrow> (exn + results) \<times> world" where
  "pymupdf_step L pdf_path page_num results w =
     (case fitz_open L pdf_path of
        Inl e \<Rightarrow> except_pymupdf e results w
      | Inr doc \<Rightarrow>
          let w1 = w\<lparr> open_documents := open_documents w + 1 \<rparr>
          in if page_num < length doc then
               (case extract_pdf_elements (doc ! page_num) of
                  Inl e \<Rightarrow> except_pymupdf e results w1
                | Inr (drawings, shapes) \<Rightarrow>
                    (Inr (results(''pdf_drawings'' \<mapsto> Drawings drawings,
                                  ''pdf_shapes'' \<mapsto> Shapes shapes)),
                     w1\<lparr> open_documents := open_documents w1 - 1 \<rparr>))
             else (Inr results, w1\<lparr> open_documents := open_documents w1 - 1 \<rparr>))"

definition detect_lines_and_colors ::
  "libs \<Rightarrow> string \<Rightarrow> nat \<Rightarrow> int \<Rightarrow> world \<Rightarrow> (exn + results) \<times> world" where
  "detect_lines_and_colors L pdf_path page_num dpi w =
     (let results = [''lines'' \<mapsto> Lines [], ''background_colors'' \<mapsto> Colors [],
                     ''checkboxes'' \<mapsto> Checkboxes []]
      in case convert_from_path L pdf_path dpi (page_num + 1) (page_num + 1) of
           Inl e \<Rightarrow> (Inl e, w)
         | Inr pages \<Rightarrow>
             (case pages of
                [] \<Rightarrow> (Inr results, w)
              | img # others \<Rightarrow>
                  let gray = cvtColor L img
                  in case detect_lines (HoughLinesP L) gray dpi of
                       Inl e \<Rightarrow> (Inl e, w)
                     | Inr lines \<Rightarrow>
                  (case detect_background_colors (sklearn L) img dpi of
                       Inl e \<Rightarrow> (Inl e, w)
                     | Inr colors \<Rightarrow>
                  (case detect_checkboxes (matchTemplate L) (findContours L) gray dpi of
                       Inl e \<Rightarrow> (Inl e, w)
                     | Inr checkboxes \<Rightarrow>
                         let results = results(''lines'' \<mapsto> Lines lines,
                                               ''background_colors'' \<mapsto> Colors colors,
                                               ''checkboxes'' \<mapsto> Checkboxes checkboxes)
                         in if PYMUPDF_AVAILABLE L
                            then pymupdf_step L pdf_path page_num results w
                            else (Inr (results(''pdf_drawings'' \<mapsto> Drawings [],
                                               ''pdf_shapes'' \<mapsto> Shapes [])), w)))))"

text \<open>
  The handler of the main block, \<open>except Exception as e\<close>: two printed lines. An
  exception that is not an \<open>Exception\<close> leaves the script.
\<close>

definition top_level_handler :: "exn \<Rightarrow> world \<Rightarrow> (exn + unit) \<times> world" where
  "top_level_handler e w =
     (if is_Exception e
      then (Inr (), w\<lparr> stdout := stdout w @
              [''Error processing PDF: '' @ exn_str e,
               ''Make sure you have installed: pip install opencv-python pdf2image PyMuPDF pillow''] \<rparr>)
      else (Inl e, w))"

text \<open>\<open>results[key]\<close> and \<open>len\<close> of it.\<close>

definition lookup :: "results \<Rightarrow> string \<Rightarrow> exn + result_value" where
  "lookup results key =
     (case results key of
        None \<Rightarrow> Inl (Exception ''KeyError'' ([CHR 0x27] @ key @ [CHR 0x27]))
      | Some v \<Rightarrow> Inr v)"

fun len :: "result_value \<Rightarrow> nat" where
  "len (Lines xs) = length xs"
| "len (Colors xs) = length xs"
| "len (Checkboxes xs) = length xs"
| "len (Drawings xs) = length xs"
| "len (Shapes xs) = length xs"

text \<open>The three \<open>print\<close> calls with counts; each reads one key of the dictionary.\<close>

fun print_counts :: "results \<Rightarrow> (string \<times> string) list \<Rightarrow> world \<Rightarrow> exn option \<times> world" where
  "print_counts results [] w = (None, w)"
| "print_counts results ((key, noun) # rest) w =
     (case lookup results key of
        Inl e \<Rightarrow> (Some e, w)
      | Inr v \<Rightarrow>
          print_counts results rest
            (w\<lparr> stdout := stdout w @ [''Detected '' @ show_nat (len v) @ '' '' @ noun] \<rparr>))"

definition print_first_line :: "libs \<Rightarrow> results \<Rightarrow> world \<Rightarrow> (exn + unit) \<times> world" where
  "print_first_line L results w =
     (case lookup results ''lines'' of
        Inl e \<Rightarrow> top_level_handler e w
      | Inr (Lines (line # others)) \<Rightarrow>
          let w1 = w\<lparr> stdout := stdout w @ [CHR 0x0A # ''First line detected:''] \<rparr>
          in (case json_dumps L line of
                Inl e \<Rightarrow> top_level_handler e w1
              | Inr text \<Rightarrow> (Inr (), w1\<lparr> stdout := stdout w1 @ [text] \<rparr>))
      | Inr v \<Rightarrow> (Inr (), w))"

definition main :: "libs \<Rightarrow> world \<Rightarrow> (exn + unit) \<times> world" where
  "main L w =
     (case detect_lines_and_colors L ''f1040.pdf'' 0 150 w of
        (Inl e, w1) \<Rightarrow> top_level_handler e w1
      | (Inr results, w1) \<Rightarrow>
          (case open_w L ''detected_elements.json'' of
             Some e \<Rightarrow> top_level_handler e w1
           | None \<Rightarrow>
               (case json_dump L results of
                  (text, err) \<Rightarrow>
                    let w2 = w1\<lparr> files := (files w1)(''detected_elements.json'' \<mapsto> text) \<rparr>
                    in (case err of
                          Some e \<Rightarrow> top_level_handler e w2
                        | None \<Rightarrow>
                            (case print_counts results
                                    [(''lines'', ''lines''),
                                     (''background_colors'', ''colored regions''),
                                     (''checkboxes'', ''potential checkboxes'')] w2 of
                               (Some e, w3) \<Rightarrow> top_level_handler e w3
                             | (None, w3) \<Rightarrow> print_first_line L results w3)))))"

section \<open>The text script (textParser.py)\<close>

text \<open>
  The script keeps the word records of \<open>pdfplumber\<close> as they come, so their type is
  left open. A page is what its \<open>extract_words(extra_attrs=['size'])\<close> returns or raises,
  and \<open>pdfplumber.open\<close> gives the pages of the document or raises. \<open>json_dump_words\<close>
  gives the text written to the file and the exception that ended the writing, if any.
\<close>

record 'w text_libs =
  pdfplumber_open :: "string \<Rightarrow> exn + (exn + 'w list) list"
  open_w_text :: "string \<Rightarrow> exn option"
  json_dump_words :: "(string \<times> 'w list) list \<Rightarrow> string \<times> exn option"

text \<open>The loop over \<open>enumerate(pdf.pages)\<close>; the dictionary \<open>output\<close> in insertion order.\<close>

fun pages_loop ::
  "(string \<times> 'w list) list \<Rightarrow> nat \<Rightarrow> (exn + 'w list) list \<Rightarrow> exn + (string \<times> 'w list) list" where
  "pages_loop output i [] = Inr output"
| "pages_loop output i (page # rest) =
     (case page of
        Inl e \<Rightarrow> Inl e
      | Inr words \<Rightarrow> pages_loop (output @ [(''page_'' @ show_nat (i + 1), words)]) (i + 1) rest)"

text \<open>
  The whole script. The first \<open>with\<close> closes the document on every way out of its
  block; opening the output file for writing empties it, and the second \<open>with\<close> closes
  it, with what has been written, on every way out.
\<close>

definition text_parser :: "'w text_libs \<Rightarrow> world \<Rightarrow> (exn + unit) \<times> world" where
  "text_parser T w =
     (case pdfplumber_open T ''f1040.pdf'' of
        Inl e \<Rightarrow> (Inl e, w)
      | Inr pages \<Rightarrow>
          let w1 = w\<lparr> open_documents := open_documents w + 1 \<rparr>;
              w2 = w1\<lparr> open_documents := open_documents w1 - 1 \<rparr>
          in (case pages_loop [] 0 pages of
                Inl e \<Rightarrow> (Inl e, w2)
              | Inr output \<Rightarrow>
                  (case open_w_text T ''f1040_words.json'' of
                     Some e \<Rightarrow> (Inl e, w2)
                   | None \<Rightarrow>
                       (case json_dump_words T output of
                          (text, err) \<Rightarrow>
                            let w3 = w2\<lparr> files := (files w2)(''f1040_words.json'' \<mapsto> text) \<rparr>
                            in (case err of
                                  Some e \<Rightarrow> (Inl e, w3)
                                | None \<Rightarrow> (Inr (), w3))))))"

section \<open>Notions used in the statements\<close>


text \<open>
  The encoding \<open>#rrggbb\<close> in the words of the specification: a hash sign, then two
  lowercase hexadecimal digits for each of red, green and blue.
\<close>

definition hex_rrggbb :: "int \<Rightarrow> int \<Rightarrow> int \<Rightarrow> string" where
  "hex_rrggbb r g b =
     [CHR ''#'', hex_digit (nat r div 16), hex_digit (nat r mod 16),
                 hex_digit (nat g div 16), hex_digit (nat g mod 16),
                 hex_digit (nat b div 16), hex_digit (nat b mod 16)]"

text \<open>The dictionary that holds the three lists of detections and no other key.\<close>

definition results_of :: "line_record list \<Rightarrow> background_color list \<Rightarrow> checkbox list \<Rightarrow> results" where
  "results_of ls cs bs = [''lines'' \<mapsto> Lines ls, ''background_colors'' \<mapsto> Colors cs,
                          ''checkboxes'' \<mapsto> Checkboxes bs]"

text \<open>The dictionary \<open>output\<close> of the text script for pages whose words were extracted.\<close>

definition output_of :: "'w list list \<Rightarrow> (string \<times> 'w list) list" where
  "output_of pages = map (\<lambda>(i, words). (''page_'' @ show_nat (i + 1), words)) (enumerate 0 pages)"

section \<open>Concrete inputs\<close>

text \<open>
  A blank grayscale page, a result of \<open>cv2.HoughLinesP\<close> with one horizontal segment,
  and a result of \<open>cv2.matchTemplate\<close> with three hits in one row, two of them one
  pixel apart.
\<close>

definition blank_page :: gray_image where
  "blank_page = \<lparr> shape0 = 100, shape1 = 200, pixel = (\<lambda>y x. 255) \<rparr>"

definition one_horizontal :: "gray_image \<Rightarrow> exn + segment list option" where
  "one_horizontal = (\<lambda>g. Inr (Some [(10, 20, 110, 20)]))"


text \<open>A page of one colour (pure red, as a blue-green-red triple), two cells high.\<close>

definition red_page :: "nat \<Rightarrow> bgr_image" where
  "red_page w = \<lparr> height = 200, width = w, bgr = (\<lambda>y x. (0, 0, 255)) \<rparr>"

text \<open>A fitted estimator that puts every sample into cluster 0, centred at pure red.\<close>

definition one_cluster :: "kmeans_call \<Rightarrow> exn + kmeans_fit" where
  "one_cluster call = Inr \<lparr> color_labels = (\<lambda>i. 0), cluster_centers = (\<lambda>k. (0, 0, 255)) \<rparr>"

text \<open>The record expected for a red page of six cells, at 72 dpi.\<close>

definition red_record :: background_color where
  "red_record =
     \<lparr> bg_element_type = ''background_color'',
       bg_position = \<lparr> bg_x = 0, bg_y = 0, bg_width = 600, bg_height = 100, bg_units = ''points'' \<rparr>,
       color = \<lparr> rgb = [255, 0, 0], hex = ''#ff0000'' \<rparr>,
       region_count = 6 \<rparr>"

text \<open>A world in which nothing has been printed, opened or written.\<close>

definition world0 :: world where
  "world0 = \<lparr> stdout = [], open_documents = 0, files = Map.empty \<rparr>"

text \<open>
  Libraries for a small blank page on which nothing is detected. PyMuPDF is installed
  and opens a document of one page, whose single drawing holds one line item with two
  values after its operator.
\<close>

definition small_page :: bgr_image where
  "small_page = \<lparr> height = 50, width = 50, bgr = (\<lambda>y x. (255, 255, 255)) \<rparr>"

definition quiet_libs :: libs where
  "quiet_libs =
     \<lparr> PYMUPDF_AVAILABLE = True,
       convert_from_path = (\<lambda>path dpi first_page last_page. Inr [small_page]),
       cvtColor = (\<lambda>img. \<lparr> shape0 = height img, shape1 = width img, pixel = (\<lambda>y x. 255) \<rparr>),
       HoughLinesP = (\<lambda>g. Inr None),
       sklearn = Inr one_cluster,
       matchTemplate = (\<lambda>g. Inr \<lparr> res_rows = 31, res_cols = 31, res_at = (\<lambda>y x. 0) \<rparr>),
       findContours = (\<lambda>g. Inr []),
       fitz_open = (\<lambda>path. Inr [Inr [[\<lparr> item_op = ''l'', item_args = [1, 2] \<rparr>]]]),
       open_w = (\<lambda>path. None),
       json_dump = (\<lambda>results. (''{}'', None)),
       json_dumps = (\<lambda>line. Inr ''{}'') \<rparr>"

text \<open>The same libraries, with a PDF file that PyMuPDF cannot open.\<close>

definition broken_pdf_libs :: libs where
  "broken_pdf_libs =
     quiet_libs \<lparr> fitz_open := (\<lambda>path. Inl (Exception ''FileDataError'' ''cannot open broken document'')) \<rparr>"

text \<open>The same libraries, with a conversion to images that fails, or yields no page.\<close>

definition no_poppler_libs :: libs where
  "no_poppler_libs =
     quiet_libs \<lparr> convert_from_path :=
       (\<lambda>path dpi first_page last_page. Inl (Exception ''PDFInfoNotInstalledError'' ''Unable to get page count. Is poppler installed and in PATH?'')) \<rparr>"

definition no_pages_libs :: libs where
  "no_pages_libs = quiet_libs \<lparr> convert_from_path := (\<lambda>path dpi first_page last_page. Inr []) \<rparr>"

text \<open>
  Libraries of the text script on a document of one page with one word, where the
  writing of the JSON text stops after its first character; then with a PDF file that is
  missing, and with a second page whose words cannot be extracted.
\<close>

definition disk_full_libs :: "string text_libs" where
  "disk_full_libs =
     \<lparr> pdfplumber_open = (\<lambda>path. Inr [Inr [''Form'']]),
       open_w_text = (\<lambda>path. None),
       json_dump_words = (\<lambda>output. (''{'', Some (Exception ''OSError'' ''No space left on device''))) \<rparr>"

definition unreadable_libs :: "string text_libs" where
  "unreadable_libs =
     disk_full_libs \<lparr> pdfplumber_open := (\<lambda>path. Inl (Exception ''FileNotFoundError'' ''f1040.pdf'')) \<rparr>"

definition bad_page_libs :: "string text_libs" where
  "bad_page_libs =
     disk_full_libs \<lparr> pdfplumber_open :=
       (\<lambda>path. Inr [Inr [''Form''], Inl (Exception ''PDFSyntaxError'' ''bad page'')]) \<rparr>"

section \<open>Properties of binary64 rounding\<close>

lemma round_half_even_err: "\<bar>real_of_int (round_half_even r) - r\<bar> \<le> 1 / 2"
proof -
  have "real_of_int \<lfloor>r\<rfloor> \<le> r" "r < real_of_int \<lfloor>r\<rfloor> + 1" by linarith+
  then show ?thesis
    by (auto simp: round_half_even_def Let_def)
qed

lemma round_half_even_of_int: "round_half_even (real_of_int n) = n"
  by (simp add: round_half_even_def)

lemma ulp_pos: "0 < ulp x"
  by (simp add: ulp_def)

lemma fl_err_ulp: "\<bar>fl x - x\<bar> \<le> ulp x / 2"
proof (cases "x = 0")
  case True
  then show ?thesis using ulp_pos [of x] by (simp add: fl_def)
next
  case False
  have "\<bar>real_of_int (round_half_even (x / ulp x)) - x / ulp x\<bar> \<le> 1 / 2"
    by (rule round_half_even_err)
  then have "\<bar>real_of_int (round_half_even (x / ulp x)) - x / ulp x\<bar> * ulp x \<le> 1 / 2 * ulp x"
    using ulp_pos [of x] by (intro mult_right_mono) simp_all
  moreover have "\<bar>real_of_int (round_half_even (x / ulp x)) - x / ulp x\<bar> * ulp x
      = \<bar>(real_of_int (round_half_even (x / ulp x)) - x / ulp x) * ulp x\<bar>"
    using ulp_pos [of x] by (intro abs_mult_pos) simp
  moreover have "(real_of_int (round_half_even (x / ulp x)) - x / ulp x) * ulp x
      = real_of_int (round_half_even (x / ulp x)) * ulp x - x"
    using ulp_pos [of x] by (simp add: left_diff_distrib)
  ultimately show ?thesis using False by (simp add: fl_def)
qed

lemma ulp_le:
  assumes x0: "x \<noteq> 0"
  shows "ulp x \<le> \<bar>x\<bar> / 2 ^ 52 + 2 powr (- 1074)"
proof (cases "\<lfloor>log 2 \<bar>x\<bar>\<rfloor> \<ge> - 1022")
  case True
  have "max \<lfloor>log 2 \<bar>x\<bar>\<rfloor> (- 1022) = \<lfloor>log 2 \<bar>x\<bar>\<rfloor>"
    using True by (rule max_absorb1)
  then have "ulp x = 2 powr (real_of_int \<lfloor>log 2 \<bar>x\<bar>\<rfloor> - 52)"
    by (simp only: ulp_def)
  also have "\<dots> \<le> 2 powr (log 2 \<bar>x\<bar> - 52)"
    by (intro powr_mono) simp_all
  also have "\<dots> = \<bar>x\<bar> / 2 ^ 52"
    using x0 by (simp add: powr_diff powr_numeral)
  finally show ?thesis by (simp add: add_increasing2)
next
  case False
  then have "max \<lfloor>log 2 \<bar>x\<bar>\<rfloor> (- 1022) = - 1022"
    by (intro max_absorb2) simp
  then have "ulp x = 2 powr (- 1074)"
    by (simp add: ulp_def)
  then show ?thesis by simp
qed

lemma fl_err: "\<bar>fl x - x\<bar> \<le> \<bar>x\<bar> / 2 ^ 53 + 2 powr (- 1075)"
proof (cases "x = 0")
  case True
  then show ?thesis by (simp add: fl_def)
next
  case False
  have "2 powr (- 1074) / 2 = (2::real) powr (- 1075)"
    by (simp add: powr_minus)
  then show ?thesis
    using fl_err_ulp [of x] ulp_le [OF False] by (simp add: field_simps)
qed


lemma ulp_eval:
  assumes "x \<noteq> 0" "2 powr real_of_int e \<le> \<bar>x\<bar>" "\<bar>x\<bar> < 2 powr (real_of_int e + 1)"
  shows "ulp x = 2 powr (real_of_int (max e (- 1022)) - 52)"
proof -
  have "\<lfloor>log 2 \<bar>x\<bar>\<rfloor> = e"
    using assms by (subst floor_log_eq_powr_iff) simp_all
  then show ?thesis by (simp add: ulp_def)
qed

lemma fl_eval:
  assumes "x \<noteq> 0" "2 powr real_of_int e \<le> \<bar>x\<bar>" "\<bar>x\<bar> < 2 powr (real_of_int e + 1)" "- 1022 \<le> e"
  shows "fl x = real_of_int (round_half_even (x / 2 powr (real_of_int e - 52))) * 2 powr (real_of_int e - 52)"
proof -
  have "max e (- 1022) = e" using assms(4) by simp
  with ulp_eval [OF assms(1-3)] have "ulp x = 2 powr (real_of_int e - 52)" by simp
  with assms(1) show ?thesis by (simp add: fl_def)
qed

text \<open>A number \<open>m * 2 ^ q\<close> with \<open>\<bar>m\<bar> < 2 ^ 53\<close> and \<open>q \<ge> - 1074\<close> is a binary64 value.\<close>

lemma fl_exact:
  assumes x: "x = real_of_int m * 2 powr real_of_int q" and m: "\<bar>m\<bar> < 2 ^ 53" and q: "- 1074 \<le> q"
  shows "fl x = x"
proof (cases "m = 0")
  case True
  with x show ?thesis by (simp add: fl_def)
next
  case False
  then have x0: "x \<noteq> 0" using x by simp
  define E where "E = max \<lfloor>log 2 \<bar>x\<bar>\<rfloor> (- 1022)"
  have u: "ulp x = 2 powr (real_of_int E - 52)" by (simp add: ulp_def E_def)
  have "real_of_int \<bar>m\<bar> < 2 ^ 53" using m by (metis of_int_less_numeral_power_cancel_iff)
  then have "\<bar>x\<bar> < 2 ^ 53 * 2 powr real_of_int q"
    unfolding x by (simp add: abs_mult)
  also have "\<dots> = 2 powr (real_of_int q + 53)"
    by (simp add: powr_add)
  finally have "log 2 \<bar>x\<bar> < real_of_int q + 53"
    using x0 by (simp add: log_less_iff)
  then have "\<lfloor>log 2 \<bar>x\<bar>\<rfloor> < q + 53"
    by (simp add: floor_less_iff)
  with q have Eq: "E - 52 \<le> q" by (simp add: E_def)
  define d where "d = nat (q - (E - 52))"
  have dq: "real_of_int q = real_of_int E - 52 + real d"
    using Eq by (simp add: d_def)
  have xu: "x = real_of_int (m * 2 ^ d) * ulp x"
    unfolding u by (subst x, subst dq) (simp add: powr_add powr_realpow)
  then have "x / ulp x = real_of_int (m * 2 ^ d)"
    using ulp_pos [of x] by (simp add: field_simps)
  then have "round_half_even (x / ulp x) = m * 2 ^ d"
    by (simp only: round_half_even_of_int)
  then have "fl x = real_of_int (m * 2 ^ d) * ulp x"
    using x0 by (simp add: fl_def)
  with xu show ?thesis by simp
qed

lemma fl_of_int: "\<bar>n\<bar> < 2 ^ 53 \<Longrightarrow> fl (real_of_int n) = real_of_int n"
  by (rule fl_exact [where m = n and q = 0]) simp_all

lemma fl_small [simp]: "fl 0 = 0" "fl 1 = 1"
  using fl_of_int [of 0] fl_of_int [of 1] by simp_all

lemma fl_numeral: "numeral n < (2 :: int) ^ 53 \<Longrightarrow> fl (numeral n) = numeral n"
  using fl_of_int [of "numeral n"] by simp

lemma fl_points_per_pixel_320: "fl (72 / 320) = 8106479329266893 / 2 ^ 55"
proof -
  have "fl (72 / 320) = real_of_int (round_half_even ((72 / 320) / 2 powr (real_of_int (- 3) - 52)))
      * 2 powr (real_of_int (- 3) - 52)"
    by (rule fl_eval) (simp_all add: powr_minus)
  also have "\<dots> = 8106479329266893 / 2 ^ 55"
    by (simp add: powr_minus round_half_even_def)
  finally show ?thesis .
qed

lemma eta_small: "(2::real) powr (- 1075) * 2 ^ 34 \<le> 1 / 2 ^ 50"
proof -
  have pw: "(2::real) ^ n = 2 powr real n" for n
    by (simp add: powr_realpow)
  have "(2::real) powr (- 1075) * 2 powr real 34 = 2 powr (- 1075 + real 34)"
    by (rule powr_add [symmetric])
  also have "\<dots> \<le> 2 powr (- real 50)"
    by (rule powr_mono) simp_all
  also have "\<dots> = 1 / 2 powr real 50"
    by (simp only: powr_minus divide_inverse mult_1)
  finally show ?thesis
    by (simp only: pw)
qed

lemma to_points_err:
  fixes X D :: real
  shows "\<bar>fl (X * fl (72 / D)) - X * 72 / D\<bar>
           \<le> 3 * \<bar>X * 72 / D\<bar> / 2 ^ 53 + (2 * \<bar>X\<bar> + 1) * 2 powr (- 1075)"
proof -
  define \<eta> :: real where "\<eta> = 2 powr (- 1075)"
  define q where "q = 72 / D"
  define a where "a = fl q - q"
  define P where "P = \<bar>X * q\<bar>"
  define B where "B = \<bar>X\<bar> * \<eta>"
  have \<eta>: "0 \<le> \<eta>" by (simp add: \<eta>_def)
  have B: "0 \<le> B" using \<eta> by (simp add: B_def)
  have P: "0 \<le> P" by (simp add: P_def)
  have a: "\<bar>a\<bar> \<le> \<bar>q\<bar> / 2 ^ 53 + \<eta>"
    unfolding a_def \<eta>_def by (rule fl_err)
  have "\<bar>X\<bar> * \<bar>a\<bar> \<le> \<bar>X\<bar> * (\<bar>q\<bar> / 2 ^ 53 + \<eta>)"
    using a by (intro mult_left_mono) simp_all
  also have "\<dots> = P / 2 ^ 53 + B"
    by (simp add: P_def B_def abs_mult algebra_simps)
  finally have Xa: "\<bar>X * a\<bar> \<le> P / 2 ^ 53 + B"
    by (simp add: abs_mult)
  have s: "X * fl q = X * q + X * a"
    by (simp add: a_def algebra_simps)
  have e2: "\<bar>fl (X * fl q) - X * fl q\<bar> \<le> \<bar>X * fl q\<bar> / 2 ^ 53 + \<eta>"
    unfolding \<eta>_def by (rule fl_err)
  have m: "\<bar>X * fl q\<bar> \<le> \<bar>X * q\<bar> + \<bar>X * a\<bar>"
    unfolding s by (rule abs_triangle_ineq)
  have "\<bar>fl (X * fl q) - X * q\<bar> \<le> \<bar>fl (X * fl q) - X * fl q\<bar> + \<bar>X * a\<bar>"
    unfolding s by simp
  with e2 m Xa P B \<eta> have "\<bar>fl (X * fl q) - X * q\<bar> \<le> 3 * P / 2 ^ 53 + (2 * B + \<eta>)"
    unfolding P_def [symmetric] by simp
  then show ?thesis
    by (simp add: q_def P_def B_def \<eta>_def algebra_simps)
qed

lemma np_round_two:
  "\<exists>n::int. np_round v 2 = fl (real_of_int n / 100) \<and>
      \<bar>real_of_int n / 100 - v\<bar> \<le> 1 / 200 + \<bar>v\<bar> / 2 ^ 53 + 2 powr (- 1075)"
proof -
  define \<eta> :: real where "\<eta> = 2 powr (- 1075)"
  define w where "w = fl (v * 100)"
  define n where "n = round_half_even w"
  have \<eta>: "0 \<le> \<eta>" by (simp add: \<eta>_def)
  have w: "\<bar>w - v * 100\<bar> \<le> \<bar>v * 100\<bar> / 2 ^ 53 + \<eta>"
    unfolding w_def \<eta>_def by (rule fl_err)
  have n: "\<bar>real_of_int n - w\<bar> \<le> 1 / 2"
    unfolding n_def by (rule round_half_even_err)
  have "\<bar>v * 100\<bar> = 100 * \<bar>v\<bar>" by (simp add: abs_mult)
  with w n have "\<bar>real_of_int n - v * 100\<bar> \<le> 1 / 2 + 100 * \<bar>v\<bar> / 2 ^ 53 + \<eta>"
    by linarith
  then have "\<bar>real_of_int n / 100 - v\<bar> \<le> 1 / 200 + \<bar>v\<bar> / 2 ^ 53 + \<eta>"
    using \<eta> by (simp add: field_simps abs_le_iff)
  moreover have "np_round v 2 = fl (real_of_int n / 100)"
    by (simp add: np_round_def n_def w_def)
  ultimately show ?thesis unfolding \<eta>_def by blast
qed


text \<open>
  A pixel coordinate converted to points and rounded as the script does: the result is
  the binary64 value of a number with two decimals, and that number and the result are
  within half a unit of the second decimal, up to the rounding of binary64 arithmetic, of
  the exact product.
\<close>

lemma point_coordinate:
  fixes X D :: real
  assumes X: "\<bar>X\<bar> \<le> 2 ^ 31"
  shows "\<exists>n::int. np_round (fl (X * fl (72 / D))) 2 = fl (real_of_int n / 100) \<and>
           \<bar>real_of_int n / 100 - X * 72 / D\<bar> \<le> 1 / 200 + (\<bar>X * 72 / D\<bar> + 1) / 2 ^ 50 \<and>
           \<bar>np_round (fl (X * fl (72 / D))) 2 - X * 72 / D\<bar>
              \<le> 1 / 200 + (\<bar>X * 72 / D\<bar> + 1) / 2 ^ 49"
proof -
  define \<eta> :: real where "\<eta> = 2 powr (- 1075)"
  define p where "p = X * 72 / D"
  define v where "v = fl (X * fl (72 / D))"
  define B where "B = \<bar>X\<bar> * \<eta>"
  define pp where "pp = \<bar>p\<bar> / 2 ^ 53"
  define E where "E = 3 * pp + (2 * B + \<eta>)"
  define Q where "Q = (\<bar>p\<bar> + 1) / 2 ^ 50"
  have \<eta>: "0 \<le> \<eta>" by (simp add: \<eta>_def)
  have \<eta>s: "\<eta> * 2 ^ 34 \<le> 1 / 2 ^ 50" unfolding \<eta>_def by (rule eta_small)
  have B: "0 \<le> B" "B \<le> 2 ^ 31 * \<eta>"
    using X \<eta> by (simp_all add: B_def mult_right_mono)
  have pp: "0 \<le> pp" by (simp add: pp_def)
  have E0: "0 \<le> E" using pp B(1) \<eta> by (simp add: E_def)
  have "\<bar>v - p\<bar> \<le> 3 * \<bar>p\<bar> / 2 ^ 53 + (2 * B + \<eta>)"
    using to_points_err [of X D] by (simp add: v_def p_def B_def \<eta>_def algebra_simps)
  then have vp: "\<bar>v - p\<bar> \<le> E" by (simp add: E_def pp_def)
  obtain n :: int where n: "np_round v 2 = fl (real_of_int n / 100)"
    and nv: "\<bar>real_of_int n / 100 - v\<bar> \<le> 1 / 200 + \<bar>v\<bar> / 2 ^ 53 + \<eta>"
    using np_round_two [of v] unfolding \<eta>_def by blast
  define m where "m = real_of_int n / 100"
  have "\<bar>v\<bar> \<le> \<bar>p\<bar> + E" using vp by linarith
  then have "\<bar>v\<bar> / 2 ^ 53 \<le> (\<bar>p\<bar> + E) / 2 ^ 53" by (rule divide_right_mono) simp
  also have "\<dots> = pp + E / 2 ^ 53" by (simp add: pp_def add_divide_distrib)
  also have "\<dots> \<le> pp + E / 1"
    using E0 by (intro add_left_mono divide_left_mono) simp_all
  finally have v53: "\<bar>v\<bar> / 2 ^ 53 \<le> pp + E" by simp
  have "\<bar>m - p\<bar> \<le> \<bar>m - v\<bar> + \<bar>v - p\<bar>" by linarith
  with nv v53 vp have A: "\<bar>m - p\<bar> \<le> 1 / 200 + 7 * pp + 4 * B + 3 * \<eta>"
    unfolding E_def m_def by linarith
  have "4 * B + 3 * \<eta> \<le> 2 ^ 34 * \<eta>" using B(2) \<eta> by simp
  with \<eta>s have small: "4 * B + 3 * \<eta> \<le> 1 / 2 ^ 50" by (simp add: mult.commute)
  have Q8: "Q = 8 * pp + 1 / 2 ^ 50" by (simp add: Q_def pp_def add_divide_distrib)
  have np: "\<bar>m - p\<bar> \<le> 1 / 200 + Q"
    using A small pp unfolding Q8 by linarith
  have Q: "1 / 2 ^ 50 \<le> Q" "0 \<le> Q" using pp by (simp_all add: Q8)
  have c: "\<bar>fl m - m\<bar> \<le> \<bar>m\<bar> / 2 ^ 53 + \<eta>"
    unfolding \<eta>_def by (rule fl_err)
  have "\<bar>m\<bar> \<le> (\<bar>p\<bar> + 1) + Q" using np by linarith
  then have "\<bar>m\<bar> / 2 ^ 53 \<le> ((\<bar>p\<bar> + 1) + Q) / 2 ^ 53" by (rule divide_right_mono) simp
  also have "\<dots> = Q / 8 + Q / 2 ^ 53" by (simp add: Q_def add_divide_distrib)
  also have "\<dots> \<le> Q / 8 + Q / 8"
    using Q(2) by (intro add_left_mono divide_left_mono) simp_all
  finally have m53: "\<bar>m\<bar> / 2 ^ 53 \<le> Q / 4" by simp
  have "2 * \<eta> \<le> 2 ^ 34 * \<eta>" using \<eta> by simp
  with \<eta>s have "2 * \<eta> \<le> 1 / 2 ^ 50" by (simp add: mult.commute)
  with Q(1) have e2: "2 * \<eta> \<le> Q" by linarith
  have "\<bar>fl m - p\<bar> \<le> \<bar>fl m - m\<bar> + \<bar>m - p\<bar>" by linarith
  with c m53 e2 np have "\<bar>fl m - p\<bar> \<le> 1 / 200 + 2 * Q" by linarith
  moreover have "2 * Q = (\<bar>p\<bar> + 1) / 2 ^ 49" by (simp add: Q_def)
  ultimately have fm: "\<bar>fl m - p\<bar> \<le> 1 / 200 + (\<bar>p\<bar> + 1) / 2 ^ 49" by simp
  note n' = n [unfolded v_def]
  show ?thesis
  proof (intro exI [of _ n] conjI)
    show "np_round (fl (X * fl (72 / D))) 2 = fl (real_of_int n / 100)" by (rule n')
    show "\<bar>real_of_int n / 100 - X * 72 / D\<bar> \<le> 1 / 200 + (\<bar>X * 72 / D\<bar> + 1) / 2 ^ 50"
      using np unfolding m_def p_def Q_def .
    show "\<bar>np_round (fl (X * fl (72 / D))) 2 - X * 72 / D\<bar>
            \<le> 1 / 200 + (\<bar>X * 72 / D\<bar> + 1) / 2 ^ 49"
      unfolding n' using fm unfolding m_def p_def .
  qed
qed

section \<open>Properties of line detection\<close>

lemma sqrt_sum_squares_quotient:
  assumes "x \<noteq> 0"
  shows "sqrt (x\<^sup>2 + y\<^sup>2) = \<bar>x\<bar> * sqrt (1 + (y / x)\<^sup>2)"
proof -
  have "x\<^sup>2 + y\<^sup>2 = x\<^sup>2 * (1 + (y / x)\<^sup>2)"
    using assms by (simp add: field_simps power2_eq_square)
  then show ?thesis
    by (simp add: real_sqrt_mult)
qed

lemma polar_arctan:
  assumes "x \<noteq> 0"
  shows "sqrt (x\<^sup>2 + y\<^sup>2) * cos (arctan (y / x)) = \<bar>x\<bar>"
    and "sqrt (x\<^sup>2 + y\<^sup>2) * sin (arctan (y / x)) = \<bar>x\<bar> * (y / x)"
proof -
  have pos: "0 < sqrt (1 + (y / x)\<^sup>2)"
    by (simp add: add_pos_nonneg)
  show "sqrt (x\<^sup>2 + y\<^sup>2) * cos (arctan (y / x)) = \<bar>x\<bar>"
    using pos by (simp add: sqrt_sum_squares_quotient [OF assms] cos_arctan)
  show "sqrt (x\<^sup>2 + y\<^sup>2) * sin (arctan (y / x)) = \<bar>x\<bar> * (y / x)"
    using pos by (simp add: sqrt_sum_squares_quotient [OF assms] sin_arctan)
qed

lemma arctan2_polar:
  assumes "x \<noteq> 0 \<or> y \<noteq> 0"
  shows "- pi < arctan2 y x \<and> arctan2 y x \<le> pi \<and>
         sqrt (x\<^sup>2 + y\<^sup>2) * cos (arctan2 y x) = x \<and>
         sqrt (x\<^sup>2 + y\<^sup>2) * sin (arctan2 y x) = y"
proof -
  consider "0 < x" | "x < 0" "0 \<le> y" | "x < 0" "y < 0" | "x = 0" "0 < y" | "x = 0" "y < 0"
    using assms by linarith
  then show ?thesis
  proof cases
    case 1
    then have x: "x \<noteq> 0" by simp
    have "- (pi / 2) < arctan (y / x)" "arctan (y / x) < pi / 2"
      by (rule arctan_lbound, rule arctan_ubound)
    then have "- pi < arctan (y / x)" "arctan (y / x) \<le> pi"
      using pi_gt_zero by linarith+
    with 1 polar_arctan [OF x, of y] show ?thesis
      by (simp add: arctan2_def)
  next
    case 2
    then have x: "x \<noteq> 0" by simp
    from 2 have "y / x \<le> 0" by (simp add: divide_nonneg_neg)
    then have "arctan (y / x) \<le> 0" by (simp add: arctan_le_zero_iff)
    moreover have "- (pi / 2) < arctan (y / x)" by (rule arctan_lbound)
    ultimately have "- pi < arctan (y / x) + pi" "arctan (y / x) + pi \<le> pi"
      using pi_gt_zero by linarith+
    with 2 polar_arctan [OF x, of y] show ?thesis
      by (simp add: arctan2_def)
  next
    case 3
    then have x: "x \<noteq> 0" by simp
    from 3 have "0 < y / x" by (simp add: divide_neg_neg)
    then have "0 < arctan (y / x)" by (simp add: zero_less_arctan_iff)
    moreover have "arctan (y / x) < pi / 2" by (rule arctan_ubound)
    ultimately have "- pi < arctan (y / x) - pi" "arctan (y / x) - pi \<le> pi"
      using pi_gt_zero by linarith+
    with 3 polar_arctan [OF x, of y] show ?thesis
      by (simp add: arctan2_def)
  next
    case 4
    then show ?thesis using pi_gt_zero by (simp add: arctan2_def)
  next
    case 5
    then show ?thesis
      by (simp add: arctan2_def) (use pi_gt_zero in linarith)
  qed
qed

lemma lines_loop_map:
  "dpi \<noteq> 0 \<Longrightarrow>
   lines_loop g dpi acc segs = Inr (acc @ map (line_entry g (fl (72 / real_of_int dpi))) segs)"
  by (induction segs arbitrary: acc) (simp_all add: points_per_pixel_def)

lemma lines_loop_zero:
  "lines_loop g 0 acc segs = (if segs = [] then Inr acc else Inl ZeroDivisionError)"
  by (cases segs) (simp_all add: points_per_pixel_def)

lemma arctan2_horizontal:
  "x \<noteq> 0 \<Longrightarrow> arctan2 0 x = (if 0 < x then 0 else pi)"
  by (simp add: arctan2_def)

lemma orientation_horizontal: "orientation_of 0 = ''horizontal''" "orientation_of 180 = ''horizontal''"
  by (simp_all add: orientation_of_def)

lemma foldl_count:
  "foldl (\<lambda>cnt i. if P i then cnt + 1 else cnt) c xs = c + length (filter P xs)"
  by (induction xs arbitrary: c) simp_all

lemma black_count_card:
  "black_count g seg = card {i. i < num_samples \<and> dark_sample g seg i}"
proof -
  have "black_count g seg = length (filter (dark_sample g seg) [0..<num_samples])"
    by (simp add: black_count_def foldl_count)
  also have "\<dots> = card (set (filter (dark_sample g seg) [0..<num_samples]))"
    by (rule distinct_card [symmetric]) simp
  also have "set (filter (dark_sample g seg) [0..<num_samples]) = {i. i < num_samples \<and> dark_sample g seg i}"
    by auto
  finally show ?thesis .
qed

lemma detect_line_style_iff:
  "detect_line_style g seg = (if black_count g seg < 14 then ''dotted'' else ''solid'')"
  by (simp add: detect_line_style_def num_samples_def)

lemma orientation_of_cases: "orientation_of a \<in> {''horizontal'', ''vertical'', ''diagonal''}"
  by (simp add: orientation_of_def)

lemma segment_angle_horizontal:
  assumes "x1 \<noteq> x2"
  shows "segment_angle (x1, y, x2, y) = 0 \<or> segment_angle (x1, y, x2, y) = 180"
proof -
  define d where "d = real_of_int (sint (x2 - x1))"
  have "x2 - x1 \<noteq> 0" using assms by simp
  then have d: "d \<noteq> 0" unfolding d_def by (simp add: signed_eq_0_iff)
  have "segment_angle (x1, y, x2, y) = arctan2 0 d * 180 / pi"
    by (simp add: segment_angle_def d_def)
  with d show ?thesis
    by (simp add: arctan2_horizontal)
qed

lemma detect_lines_map:
  "hough g = Inr (Some segs) \<Longrightarrow> dpi \<noteq> 0 \<Longrightarrow>
   detect_lines hough g dpi = Inr (map (line_entry g (fl (72 / real_of_int dpi))) segs)"
  by (simp add: detect_lines_def lines_loop_map)

lemma detect_lines_Inr:
  assumes "detect_lines hough g dpi = Inr recs" and "recs \<noteq> []"
  shows "\<exists>segs. hough g = Inr (Some segs) \<and> dpi \<noteq> 0 \<and>
           recs = map (line_entry g (fl (72 / real_of_int dpi))) segs"
proof (cases "hough g")
  case (Inl e)
  with assms show ?thesis by (simp add: detect_lines_def)
next
  case (Inr r)
  show ?thesis
  proof (cases r)
    case None
    with Inr assms show ?thesis by (simp add: detect_lines_def)
  next
    case (Some segs)
    have loop: "lines_loop g dpi [] segs = Inr recs"
      using assms(1) Inr Some by (simp add: detect_lines_def)
    have "dpi \<noteq> 0"
    proof
      assume "dpi = 0"
      with loop assms(2) show False
        by (simp add: lines_loop_zero split: if_splits)
    qed
    with loop Inr Some show ?thesis
      by (simp add: lines_loop_map)
  qed
qed

lemma sint32_bound: "\<bar>real_of_int (sint (w :: 32 word))\<bar> \<le> 2 ^ 31"
proof -
  have "- (2 ^ 31) \<le> sint w" "sint w < 2 ^ 31"
    using sint_ge [of w] sint_lt [of w] by simp_all
  then have "\<bar>sint w\<bar> \<le> 2 ^ 31" by simp
  then have "real_of_int \<bar>sint w\<bar> \<le> real_of_int (2 ^ 31)" by (simp only: of_int_le_iff)
  then show ?thesis by simp
qed

text \<open>
  The script's rounding is not the rounding of the exact product: at 320 dpi the pixel 21
  is 4.725 points, the binary64 product is just above it, and the record holds 4.73,
  further than 0.005 from 4.725.
\<close>

lemma point_rounding_example:
  "np_round (fl (21 * fl (72 / 320))) 2 = fl (473 / 100)"
  "fl (473 / 100) = 1331376639841403 / 2 ^ 48"
  "1 / 200 < \<bar>fl (473 / 100) - 21 * 72 / 320\<bar>"
proof -
  have p: "fl (21 * fl (72 / 320)) = 5319877059831399 / 2 ^ 50"
  proof -
    have "fl (21 * (8106479329266893 / 2 ^ 55))
        = real_of_int (round_half_even ((21 * (8106479329266893 / 2 ^ 55)) / 2 powr (real_of_int 2 - 52)))
          * 2 powr (real_of_int 2 - 52)"
      by (rule fl_eval) (simp_all add: powr_minus)
    also have "\<dots> = 5319877059831399 / 2 ^ 50"
      by (simp add: powr_minus round_half_even_def)
    finally show ?thesis by (simp only: fl_points_per_pixel_320)
  qed
  have w: "fl (5319877059831399 / 2 ^ 50 * 10 ^ 2) = 8312307905986561 / 2 ^ 44"
  proof -
    have "fl (5319877059831399 / 2 ^ 50 * 10 ^ 2)
        = real_of_int (round_half_even ((5319877059831399 / 2 ^ 50 * 10 ^ 2) / 2 powr (real_of_int 8 - 52)))
          * 2 powr (real_of_int 8 - 52)"
      by (rule fl_eval) (simp_all add: powr_minus)
    also have "\<dots> = 8312307905986561 / 2 ^ 44"
      by (simp add: powr_minus round_half_even_def)
    finally show ?thesis .
  qed
  have r: "round_half_even (8312307905986561 / 2 ^ 44) = 473"
    by (simp add: round_half_even_def)
  show "np_round (fl (21 * fl (72 / 320))) 2 = fl (473 / 100)"
    unfolding np_round_def p w r by simp
  show v: "fl (473 / 100) = 1331376639841403 / 2 ^ 48"
  proof -
    have "fl (473 / 100)
        = real_of_int (round_half_even ((473 / 100) / 2 powr (real_of_int 2 - 52)))
          * 2 powr (real_of_int 2 - 52)"
      by (rule fl_eval) (simp_all add: powr_minus)
    also have "\<dots> = 1331376639841403 / 2 ^ 48"
      by (simp add: powr_minus round_half_even_def)
    finally show ?thesis .
  qed
  show "1 / 200 < \<bar>fl (473 / 100) - 21 * 72 / 320\<bar>"
    unfolding v by simp
qed

text \<open>
  Claim C1. When \<open>cv2.HoughLinesP\<close> reports an exactly horizontal segment
  (\<open>y1 = y2\<close>, \<open>x1 \<noteq> x2\<close>) and \<open>dpi\<close> is not zero, \<open>detect_lines\<close> returns one record
  per segment and the record of that segment has orientation \<open>horizontal\<close>. Each of its
  four coordinates is the pixel coordinate multiplied by \<open>72 / dpi\<close> and rounded to two
  decimals, all in binary64 as the script computes it. It is a number with two decimals,
  \<open>n / 100\<close> for an integer \<open>n\<close>, stored as a binary64 value; \<open>n / 100\<close> is within
  \<open>0.005\<close> of the pixel coordinate times \<open>72 / dpi\<close>, and so is the stored value, in both
  cases up to the rounding error of the binary64 operations, which is at most the
  coordinate plus one, divided by \<open>2 ^ 49\<close>.
\<close>

theorem detect_lines_horizontal:
  assumes hough: "hough gray_image = Inr (Some segs)"
    and k: "k < length segs"
    and seg: "segs ! k = (x1, y, x2, y)"
    and ne: "x1 \<noteq> x2"
    and dpi: "dpi \<noteq> 0"
  shows "\<exists>recs. detect_lines hough gray_image dpi = Inr recs \<and> length recs = length segs \<and>
           orientation (recs ! k) = ''horizontal'' \<and>
           lx1 (line_position (recs ! k))
             = np_round (fl (real_of_int (sint x1) * fl (72 / real_of_int dpi))) 2 \<and>
           (\<exists>n::int. lx1 (line_position (recs ! k)) = fl (real_of_int n / 100) \<and>
              \<bar>real_of_int n / 100 - real_of_int (sint x1) * 72 / real_of_int dpi\<bar>
                \<le> 1 / 200 + (\<bar>real_of_int (sint x1) * 72 / real_of_int dpi\<bar> + 1) / 2 ^ 50 \<and>
              \<bar>lx1 (line_position (recs ! k)) - real_of_int (sint x1) * 72 / real_of_int dpi\<bar>
                \<le> 1 / 200 + (\<bar>real_of_int (sint x1) * 72 / real_of_int dpi\<bar> + 1) / 2 ^ 49) \<and>
           ly1 (line_position (recs ! k))
             = np_round (fl (real_of_int (sint y) * fl (72 / real_of_int dpi))) 2 \<and>
           (\<exists>n::int. ly1 (line_position (recs ! k)) = fl (real_of_int n / 100) \<and>
              \<bar>real_of_int n / 100 - real_of_int (sint y) * 72 / real_of_int dpi\<bar>
                \<le> 1 / 200 + (\<bar>real_of_int (sint y) * 72 / real_of_int dpi\<bar> + 1) / 2 ^ 50 \<and>
              \<bar>ly1 (line_position (recs ! k)) - real_of_int (sint y) * 72 / real_of_int dpi\<bar>
                \<le> 1 / 200 + (\<bar>real_of_int (sint y) * 72 / real_of_int dpi\<bar> + 1) / 2 ^ 49) \<and>
           lx2 (line_position (recs ! k))
             = np_round (fl (real_of_int (sint x2) * fl (72 / real_of_int dpi))) 2 \<and>
           (\<exists>n::int. lx2 (line_position (recs ! k)) = fl (real_of_int n / 100) \<and>
              \<bar>real_of_int n / 100 - real_of_int (sint x2) * 72 / real_of_int dpi\<bar>
                \<le> 1 / 200 + (\<bar>real_of_int (sint x2) * 72 / real_of_int dpi\<bar> + 1) / 2 ^ 50 \<and>
              \<bar>lx2 (line_position (recs ! k)) - real_of_int (sint x2) * 72 / real_of_int dpi\<bar>
                \<le> 1 / 200 + (\<bar>real_of_int (sint x2) * 72 / real_of_int dpi\<bar> + 1) / 2 ^ 49) \<and>
           ly2 (line_position (recs ! k))
             = np_round (fl (real_of_int (sint y) * fl (72 / real_of_int dpi))) 2 \<and>
           (\<exists>n::int. ly2 (line_position (recs ! k)) = fl (real_of_int n / 100) \<and>
              \<bar>real_of_int n / 100 - real_of_int (sint y) * 72 / real_of_int dpi\<bar>
                \<le> 1 / 200 + (\<bar>real_of_int (sint y) * 72 / real_of_int dpi\<bar> + 1) / 2 ^ 50 \<and>
              \<bar>ly2 (line_position (recs ! k)) - real_of_int (sint y) * 72 / real_of_int dpi\<bar>
                \<le> 1 / 200 + (\<bar>real_of_int (sint y) * 72 / real_of_int dpi\<bar> + 1) / 2 ^ 49)"
proof -
  let ?ppp = "fl (72 / real_of_int dpi)"
  let ?r = "line_entry gray_image ?ppp (x1, y, x2, y)"
  have run: "detect_lines hough gray_image dpi = Inr (map (line_entry gray_image ?ppp) segs)"
    using hough dpi by (rule detect_lines_map)
  have nth: "map (line_entry gray_image ?ppp) segs ! k = ?r"
    using k seg by simp
  have ori: "orientation ?r = ''horizontal''"
    using segment_angle_horizontal [OF ne, of y]
    by (auto simp: line_entry_def Let_def orientation_horizontal)
  have pos: "lx1 (line_position ?r) = np_round (fl (real_of_int (sint x1) * ?ppp)) 2"
    "ly1 (line_position ?r) = np_round (fl (real_of_int (sint y) * ?ppp)) 2"
    "lx2 (line_position ?r) = np_round (fl (real_of_int (sint x2) * ?ppp)) 2"
    "ly2 (line_position ?r) = np_round (fl (real_of_int (sint y) * ?ppp)) 2"
    by (simp_all add: line_entry_def Let_def)
  have coord: "\<exists>n::int. np_round (fl (real_of_int (sint c) * ?ppp)) 2 = fl (real_of_int n / 100) \<and>
      \<bar>real_of_int n / 100 - real_of_int (sint c) * 72 / real_of_int dpi\<bar>
        \<le> 1 / 200 + (\<bar>real_of_int (sint c) * 72 / real_of_int dpi\<bar> + 1) / 2 ^ 50 \<and>
      \<bar>np_round (fl (real_of_int (sint c) * ?ppp)) 2 - real_of_int (sint c) * 72 / real_of_int dpi\<bar>
        \<le> 1 / 200 + (\<bar>real_of_int (sint c) * 72 / real_of_int dpi\<bar> + 1) / 2 ^ 49"
    for c :: "32 word"
    by (rule point_coordinate) (rule sint32_bound)
  show ?thesis
    unfolding run
  proof (intro exI [of _ "map (line_entry gray_image ?ppp) segs"] conjI)
    show "Inr (map (line_entry gray_image ?ppp) segs) = Inr (map (line_entry gray_image ?ppp) segs)"
      by (rule refl)
    show "length (map (line_entry gray_image ?ppp) segs) = length segs"
      by (rule length_map)
    show "orientation (map (line_entry gray_image ?ppp) segs ! k) = ''horizontal''"
      unfolding nth by (rule ori)
  qed (unfold nth pos, (rule refl coord)+)
qed

theorem detect_lines_horizontal_witness:
  "\<exists>recs. detect_lines (\<lambda>g. Inr (Some [(21, 20, 121, 20)])) blank_page 320 = Inr recs \<and>
          length recs = length [(21 :: 32 word, 20 :: 32 word, 121 :: 32 word, 20 :: 32 word)] \<and>
          orientation (recs ! 0) = ''horizontal'' \<and>
          lx1 (line_position (recs ! 0)) = np_round (fl (21 * fl (72 / 320))) 2 \<and>
          (\<exists>n::int. lx1 (line_position (recs ! 0)) = fl (real_of_int n / 100) \<and>
             \<bar>real_of_int n / 100 - 189 / 40\<bar> \<le> 1 / 200 + (189 / 40 + 1) / 2 ^ 50 \<and>
             \<bar>lx1 (line_position (recs ! 0)) - 189 / 40\<bar> \<le> 1 / 200 + (189 / 40 + 1) / 2 ^ 49) \<and>
          ly1 (line_position (recs ! 0)) = np_round (fl (20 * fl (72 / 320))) 2 \<and>
          (\<exists>n::int. ly1 (line_position (recs ! 0)) = fl (real_of_int n / 100) \<and>
             \<bar>real_of_int n / 100 - 9 / 2\<bar> \<le> 1 / 200 + (9 / 2 + 1) / 2 ^ 50 \<and>
             \<bar>ly1 (line_position (recs ! 0)) - 9 / 2\<bar> \<le> 1 / 200 + (9 / 2 + 1) / 2 ^ 49) \<and>
          lx2 (line_position (recs ! 0)) = np_round (fl (121 * fl (72 / 320))) 2 \<and>
          (\<exists>n::int. lx2 (line_position (recs ! 0)) = fl (real_of_int n / 100) \<and>
             \<bar>real_of_int n / 100 - 1089 / 40\<bar> \<le> 1 / 200 + (1089 / 40 + 1) / 2 ^ 50 \<and>
             \<bar>lx2 (line_position (recs ! 0)) - 1089 / 40\<bar> \<le> 1 / 200 + (1089 / 40 + 1) / 2 ^ 49) \<and>
          ly2 (line_position (recs ! 0)) = np_round (fl (20 * fl (72 / 320))) 2 \<and>
          (\<exists>n::int. ly2 (line_position (recs ! 0)) = fl (real_of_int n / 100) \<and>
             \<bar>real_of_int n / 100 - 9 / 2\<bar> \<le> 1 / 200 + (9 / 2 + 1) / 2 ^ 50 \<and>
             \<bar>ly2 (line_position (recs ! 0)) - 9 / 2\<bar> \<le> 1 / 200 + (9 / 2 + 1) / 2 ^ 49)"
proof -
  have v: "real_of_int (sint (21 :: 32 word)) * 72 / real_of_int 320 = 189 / 40"
    "real_of_int (sint (20 :: 32 word)) * 72 / real_of_int 320 = 9 / 2"
    "real_of_int (sint (121 :: 32 word)) * 72 / real_of_int 320 = 1089 / 40"
    "\<bar>189 / 40 :: real\<bar> = 189 / 40" "\<bar>9 / 2 :: real\<bar> = 9 / 2" "\<bar>1089 / 40 :: real\<bar> = 1089 / 40"
    by simp_all
  have "(21 :: 32 word) \<noteq> 121" by simp
  from detect_lines_horizontal
    [of "\<lambda>g. Inr (Some [(21, 20, 121, 20)])" blank_page "[(21, 20, 121, 20)]" 0 21 20 121 320,
     OF refl _ _ this]
  show ?thesis unfolding v by simp
qed

text \<open>
  The record of that run: the pixel 21 at 320 dpi is 4.725 points, and the record holds
  the binary64 value of 4.73, which is further than \<open>0.005\<close> from 4.725.
\<close>

lemma detect_lines_example_320:
  "detect_lines (\<lambda>g. Inr (Some [(21, 20, 121, 20)])) blank_page 320
     = Inr [line_entry blank_page (fl (72 / 320)) (21, 20, 121, 20)]"
  "lx1 (line_position (line_entry blank_page (fl (72 / 320)) (21, 20, 121, 20)))
     = 1331376639841403 / 2 ^ 48"
  "1 / 200 < \<bar>lx1 (line_position (line_entry blank_page (fl (72 / 320)) (21, 20, 121, 20)))
              - 21 * 72 / 320\<bar>"
proof -
  show "detect_lines (\<lambda>g. Inr (Some [(21, 20, 121, 20)])) blank_page 320
     = Inr [line_entry blank_page (fl (72 / 320)) (21, 20, 121, 20)]"
    by (simp add: detect_lines_def points_per_pixel_def)
  have "lx1 (line_position (line_entry blank_page (fl (72 / 320)) (21, 20, 121, 20)))
      = np_round (fl (21 * fl (72 / 320))) 2"
    by (simp add: line_entry_def Let_def)
  then show v: "lx1 (line_position (line_entry blank_page (fl (72 / 320)) (21, 20, 121, 20)))
      = 1331376639841403 / 2 ^ 48"
    by (simp only: point_rounding_example)
  show "1 / 200 < \<bar>lx1 (line_position (line_entry blank_page (fl (72 / 320)) (21, 20, 121, 20)))
              - 21 * 72 / 320\<bar>"
    unfolding v by simp
qed

lemma segment_angle_polar:
  fixes x1 y1 x2 y2 :: "32 word"
  defines "dx \<equiv> real_of_int (sint (x2 - x1))"
    and "dy \<equiv> real_of_int (sint (y2 - y1))"
    and "a \<equiv> segment_angle (x1, y1, x2, y2)"
  shows "- 180 < a" "a \<le> 180"
    "sqrt (dx\<^sup>2 + dy\<^sup>2) * cos (a * pi / 180) = dx"
    "sqrt (dx\<^sup>2 + dy\<^sup>2) * sin (a * pi / 180) = dy"
    "sqrt (dx\<^sup>2 + dy\<^sup>2) = 0 \<longrightarrow> a = 0"
proof -
  define t where "t = arctan2 dy dx"
  have a: "a = t * (180 / pi)"
    by (simp add: a_def segment_angle_def t_def dx_def dy_def)
  have t: "a * pi / 180 = t"
    by (simp add: a)
  have pos: "0 < 180 / pi" by simp
  have all: "- 180 < a \<and> a \<le> 180 \<and> sqrt (dx\<^sup>2 + dy\<^sup>2) * cos t = dx \<and>
      sqrt (dx\<^sup>2 + dy\<^sup>2) * sin t = dy \<and> (sqrt (dx\<^sup>2 + dy\<^sup>2) = 0 \<longrightarrow> a = 0)"
  proof (cases "dx \<noteq> 0 \<or> dy \<noteq> 0")
    case True
    from arctan2_polar [OF True] have p: "- pi < t" "t \<le> pi"
      "sqrt (dx\<^sup>2 + dy\<^sup>2) * cos t = dx" "sqrt (dx\<^sup>2 + dy\<^sup>2) * sin t = dy"
      by (simp_all add: t_def)
    have "(- pi) * (180 / pi) < t * (180 / pi)"
      using p(1) pos by (rule mult_strict_right_mono)
    then have l: "- 180 < a" by (simp add: a)
    have "t * (180 / pi) \<le> pi * (180 / pi)"
      using p(2) by (rule mult_right_mono) simp
    then have u: "a \<le> 180" by (simp add: a)
    have "sqrt (dx\<^sup>2 + dy\<^sup>2) \<noteq> 0"
      using True by (simp add: sum_power2_eq_zero_iff)
    with l u p(3,4) show ?thesis by blast
  next
    case False
    then have z: "dx = 0" "dy = 0" by simp_all
    have "t = 0" by (simp add: t_def z arctan2_def)
    then show ?thesis by (simp add: a z)
  qed
  from all show "- 180 < a" "a \<le> 180" "sqrt (dx\<^sup>2 + dy\<^sup>2) = 0 \<longrightarrow> a = 0"
    by simp_all
  from all show "sqrt (dx\<^sup>2 + dy\<^sup>2) * cos (a * pi / 180) = dx"
    "sqrt (dx\<^sup>2 + dy\<^sup>2) * sin (a * pi / 180) = dy"
    unfolding t by simp_all
qed

lemma dark_sample_unfold:
  "dark_sample g (x1, y1, x2, y2) i \<longleftrightarrow>
     0 \<le> sample_coord x1 x2 i \<and> sample_coord x1 x2 i < int (shape1 g) \<and>
     0 \<le> sample_coord y1 y2 i \<and> sample_coord y1 y2 i < int (shape0 g) \<and>
     pixel g (nat (sample_coord y1 y2 i)) (nat (sample_coord x1 x2 i)) < 128"
  by (simp add: dark_sample_def Let_def)

lemma sample_coord_unfold:
  "sample_coord a b i =
     (let s = fl (real_of_int (sint a) + fl (fl (real i / 19) * real_of_int (sint (b - a))))
      in if 0 \<le> s then \<lfloor>s\<rfloor> else \<lceil>s\<rceil>)"
  by (simp add: sample_coord_def py_int_def num_samples_def Let_def)

text \<open>
  Claim C2. Every record \<open>detect_lines\<close> returns belongs to a segment \<open>x1, y1, x2, y2\<close>
  of \<open>cv2.HoughLinesP\<close>. Let \<open>a\<close> be the angle of the segment in degrees: the number in
  \<open>(-180, 180]\<close> whose direction is that of \<open>(x2 - x1, y2 - y1)\<close>, the differences being
  those of \<open>int32\<close>, and \<open>0\<close> when both differences are \<open>0\<close>. The orientation of the
  record is one of \<open>horizontal\<close>, \<open>vertical\<close>, \<open>diagonal\<close>: \<open>horizontal\<close> exactly when
  \<open>a\<close> is less than 10 degrees from \<open>0\<close> or from \<open>180\<close>, \<open>vertical\<close> exactly when it is
  not \<open>horizontal\<close> and \<open>a\<close> is less than 10 degrees from \<open>90\<close> or from \<open>-90\<close>, and
  \<open>diagonal\<close> in every other case. Let \<open>n\<close> be the number of indices \<open>i\<close> below 20 for
  which the sample, the point with coordinates \<open>x1 + i / 19 * (x2 - x1)\<close> and
  \<open>y1 + i / 19 * (y2 - y1)\<close> computed in binary64 and truncated towards zero, lies in
  the image on a pixel with a value below 128. The line style is one of \<open>solid\<close>,
  \<open>dotted\<close>: \<open>dotted\<close> exactly when \<open>n\<close> is less than 70 percent of 20 and \<open>solid\<close>
  otherwise.
\<close>

theorem detect_lines_orientation_style:
  assumes run: "detect_lines hough gray_image dpi = Inr recs"
    and k: "k < length recs"
  shows "\<exists>segs x1 y1 x2 y2 a n.
           hough gray_image = Inr (Some segs) \<and> length segs = length recs \<and>
           segs ! k = (x1, y1, x2, y2) \<and>
           (let dx = real_of_int (sint (x2 - x1)); dy = real_of_int (sint (y2 - y1))
            in - 180 < a \<and> a \<le> 180 \<and>
               sqrt (dx\<^sup>2 + dy\<^sup>2) * cos (a * pi / 180) = dx \<and>
               sqrt (dx\<^sup>2 + dy\<^sup>2) * sin (a * pi / 180) = dy \<and>
               (sqrt (dx\<^sup>2 + dy\<^sup>2) = 0 \<longrightarrow> a = 0)) \<and>
           orientation (recs ! k) \<in> {''horizontal'', ''vertical'', ''diagonal''} \<and>
           (orientation (recs ! k) = ''horizontal'' \<longleftrightarrow> \<bar>a\<bar> < 10 \<or> \<bar>a - 180\<bar> < 10) \<and>
           (orientation (recs ! k) = ''vertical'' \<longleftrightarrow>
              \<not> (\<bar>a\<bar> < 10 \<or> \<bar>a - 180\<bar> < 10) \<and> (\<bar>a - 90\<bar> < 10 \<or> \<bar>a + 90\<bar> < 10)) \<and>
           (orientation (recs ! k) = ''diagonal'' \<longleftrightarrow>
              \<not> (\<bar>a\<bar> < 10 \<or> \<bar>a - 180\<bar> < 10) \<and> \<not> (\<bar>a - 90\<bar> < 10 \<or> \<bar>a + 90\<bar> < 10)) \<and>
           (let coord = (\<lambda>(p :: 32 word) (q :: 32 word) (i :: nat).
                        let s = fl (real_of_int (sint p) + fl (fl (real i / 19) * real_of_int (sint (q - p))))
                        in if 0 \<le> s then \<lfloor>s\<rfloor> else \<lceil>s\<rceil>)
               in n = card {i. i < 20 \<and>
                  0 \<le> coord x1 x2 i \<and> coord x1 x2 i < int (shape1 gray_image) \<and>
                  0 \<le> coord y1 y2 i \<and> coord y1 y2 i < int (shape0 gray_image) \<and>
                  pixel gray_image (nat (coord y1 y2 i)) (nat (coord x1 x2 i)) < 128}) \<and>
           line_style (recs ! k) \<in> {''solid'', ''dotted''} \<and>
           (line_style (recs ! k) = ''dotted'' \<longleftrightarrow> 100 * n < 70 * 20) \<and>
           (line_style (recs ! k) = ''solid'' \<longleftrightarrow> \<not> 100 * n < 70 * 20)"
proof -
  from k have "recs \<noteq> []" by auto
  with run obtain segs where segs: "hough gray_image = Inr (Some segs)" "dpi \<noteq> 0"
    "recs = map (line_entry gray_image (fl (72 / real_of_int dpi))) segs"
    using detect_lines_Inr by blast
  obtain x1 y1 x2 y2 where seg: "segs ! k = (x1, y1, x2, y2)"
    by (cases "segs ! k") blast
  let ?seg = "(x1, y1, x2, y2)"
  define a where "a = segment_angle ?seg"
  define n where "n = card {i. i < 20 \<and> dark_sample gray_image ?seg i}"
  have rk: "recs ! k = line_entry gray_image (fl (72 / real_of_int dpi)) ?seg"
    using segs(3) k seg by simp
  have ori: "orientation (recs ! k) = orientation_of a"
    by (simp add: rk line_entry_def Let_def a_def)
  have sty: "line_style (recs ! k) = detect_line_style gray_image ?seg"
    by (simp add: rk line_entry_def Let_def)
  have cnt: "black_count gray_image ?seg = n"
    by (simp add: black_count_card num_samples_def n_def)
  have len: "length segs = length recs" using segs(3) by simp
  have ang: "let dx = real_of_int (sint (x2 - x1)); dy = real_of_int (sint (y2 - y1))
      in - 180 < a \<and> a \<le> 180 \<and>
         sqrt (dx\<^sup>2 + dy\<^sup>2) * cos (a * pi / 180) = dx \<and>
         sqrt (dx\<^sup>2 + dy\<^sup>2) * sin (a * pi / 180) = dy \<and>
         (sqrt (dx\<^sup>2 + dy\<^sup>2) = 0 \<longrightarrow> a = 0)"
    unfolding Let_def a_def by (intro conjI segment_angle_polar)
  have o1: "orientation (recs ! k) \<in> {''horizontal'', ''vertical'', ''diagonal''}"
    unfolding ori by (rule orientation_of_cases)
  have o2: "orientation (recs ! k) = ''horizontal'' \<longleftrightarrow> \<bar>a\<bar> < 10 \<or> \<bar>a - 180\<bar> < 10"
    unfolding ori by (simp add: orientation_of_def)
  have o3: "orientation (recs ! k) = ''vertical'' \<longleftrightarrow>
      \<not> (\<bar>a\<bar> < 10 \<or> \<bar>a - 180\<bar> < 10) \<and> (\<bar>a - 90\<bar> < 10 \<or> \<bar>a + 90\<bar> < 10)"
    unfolding ori by (simp add: orientation_of_def)
  have o4: "orientation (recs ! k) = ''diagonal'' \<longleftrightarrow>
      \<not> (\<bar>a\<bar> < 10 \<or> \<bar>a - 180\<bar> < 10) \<and> \<not> (\<bar>a - 90\<bar> < 10 \<or> \<bar>a + 90\<bar> < 10)"
    unfolding ori by (simp add: orientation_of_def)
  have smp: "let coord = (\<lambda>(p :: 32 word) (q :: 32 word) (i :: nat).
                 let s = fl (real_of_int (sint p) + fl (fl (real i / 19) * real_of_int (sint (q - p))))
                 in if 0 \<le> s then \<lfloor>s\<rfloor> else \<lceil>s\<rceil>)
     in n = card {i. i < 20 \<and>
           0 \<le> coord x1 x2 i \<and> coord x1 x2 i < int (shape1 gray_image) \<and>
           0 \<le> coord y1 y2 i \<and> coord y1 y2 i < int (shape0 gray_image) \<and>
           pixel gray_image (nat (coord y1 y2 i)) (nat (coord x1 x2 i)) < 128}"
    unfolding n_def dark_sample_unfold sample_coord_unfold by (simp only: Let_def)
  have s1: "line_style (recs ! k) \<in> {''solid'', ''dotted''}"
    unfolding sty by (simp add: detect_line_style_iff)
  have s2: "line_style (recs ! k) = ''dotted'' \<longleftrightarrow> 100 * n < 70 * 20"
    unfolding sty detect_line_style_iff cnt by auto
  have s3: "line_style (recs ! k) = ''solid'' \<longleftrightarrow> \<not> 100 * n < 70 * 20"
    unfolding sty detect_line_style_iff cnt by auto
  show ?thesis
    by (intro exI [of _ segs] exI [of _ x1] exI [of _ y1] exI [of _ x2] exI [of _ y2]
        exI [of _ a] exI [of _ n] conjI)
      (rule segs(1) len seg ang o1 o2 o3 o4 smp s1 s2 s3)+
qed

theorem detect_lines_orientation_style_witness:
  "detect_lines one_horizontal blank_page 150
     = Inr [line_entry blank_page (fl (72 / real_of_int 150)) (10, 20, 110, 20)] \<and>
   (\<exists>segs x1 y1 x2 y2 a n.
      one_horizontal blank_page = Inr (Some segs) \<and>
      length segs = length [line_entry blank_page (fl (72 / real_of_int 150)) (10, 20, 110, 20)] \<and>
      segs ! 0 = (x1, y1, x2, y2) \<and>
      (let dx = real_of_int (sint (x2 - x1)); dy = real_of_int (sint (y2 - y1))
       in - 180 < a \<and> a \<le> 180 \<and>
          sqrt (dx\<^sup>2 + dy\<^sup>2) * cos (a * pi / 180) = dx \<and>
          sqrt (dx\<^sup>2 + dy\<^sup>2) * sin (a * pi / 180) = dy \<and>
          (sqrt (dx\<^sup>2 + dy\<^sup>2) = 0 \<longrightarrow> a = 0)) \<and>
      orientation ([line_entry blank_page (fl (72 / real_of_int 150)) (10, 20, 110, 20)] ! 0)
        \<in> {''horizontal'', ''vertical'', ''diagonal''} \<and>
      (orientation ([line_entry blank_page (fl (72 / real_of_int 150)) (10, 20, 110, 20)] ! 0) = ''horizontal''
         \<longleftrightarrow> \<bar>a\<bar> < 10 \<or> \<bar>a - 180\<bar> < 10) \<and>
      (orientation ([line_entry blank_page (fl (72 / real_of_int 150)) (10, 20, 110, 20)] ! 0) = ''vertical''
         \<longleftrightarrow> \<not> (\<bar>a\<bar> < 10 \<or> \<bar>a - 180\<bar> < 10) \<and> (\<bar>a - 90\<bar> < 10 \<or> \<bar>a + 90\<bar> < 10)) \<and>
      (orientation ([line_entry blank_page (fl (72 / real_of_int 150)) (10, 20, 110, 20)] ! 0) = ''diagonal''
         \<longleftrightarrow> \<not> (\<bar>a\<bar> < 10 \<or> \<bar>a - 180\<bar> < 10) \<and> \<not> (\<bar>a - 90\<bar> < 10 \<or> \<bar>a + 90\<bar> < 10)) \<and>
      (let coord = (\<lambda>(p :: 32 word) (q :: 32 word) (i :: nat).
                   let s = fl (real_of_int (sint p) + fl (fl (real i / 19) * real_of_int (sint (q - p))))
                   in if 0 \<le> s then \<lfloor>s\<rfloor> else \<lceil>s\<rceil>)
       in n = card {i. i < 20 \<and>
             0 \<le> coord x1 x2 i \<and> coord x1 x2 i < int (shape1 blank_page) \<and>
             0 \<le> coord y1 y2 i \<and> coord y1 y2 i < int (shape0 blank_page) \<and>
             pixel blank_page (nat (coord y1 y2 i)) (nat (coord x1 x2 i)) < 128}) \<and>
      line_style ([line_entry blank_page (fl (72 / real_of_int 150)) (10, 20, 110, 20)] ! 0)
        \<in> {''solid'', ''dotted''} \<and>
      (line_style ([line_entry blank_page (fl (72 / real_of_int 150)) (10, 20, 110, 20)] ! 0) = ''dotted''
         \<longleftrightarrow> 100 * n < 70 * 20) \<and>
      (line_style ([line_entry blank_page (fl (72 / real_of_int 150)) (10, 20, 110, 20)] ! 0) = ''solid''
         \<longleftrightarrow> \<not> 100 * n < 70 * 20))"
proof -
  have run: "detect_lines one_horizontal blank_page 150
      = Inr [line_entry blank_page (fl (72 / real_of_int 150)) (10, 20, 110, 20)]"
    by (simp add: detect_lines_def one_horizontal_def points_per_pixel_def)
  have k: "0 < length [line_entry blank_page (fl (72 / real_of_int 150)) (10, 20, 110, 20)]"
    by simp
  from detect_lines_orientation_style [OF run k] run show ?thesis
    by (rule_tac conjI)
qed

text \<open>
  The record of that run is \<open>horizontal\<close> and, the page being blank, \<open>dotted\<close>. A segment
  that runs from right to left and rises by one pixel has an angle just above \<open>-180\<close>
  degrees, which is not within 10 degrees of \<open>0\<close>, \<open>180\<close>, \<open>90\<close> or \<open>-90\<close>: its record
  is \<open>diagonal\<close>.
\<close>

lemma line_entry_example:
  "orientation (line_entry blank_page ppp (10, 20, 110, 20)) = ''horizontal''"
  "line_style (line_entry blank_page ppp (10, 20, 110, 20)) = ''dotted''"
proof -
  have "segment_angle (10, 20, 110, 20) = 0"
    by (simp add: segment_angle_def arctan2_def)
  then show "orientation (line_entry blank_page ppp (10, 20, 110, 20)) = ''horizontal''"
    by (simp add: line_entry_def Let_def orientation_of_def)
  have "\<not> dark_sample blank_page (10, 20, 110, 20) i" for i
    by (simp add: dark_sample_def blank_page_def Let_def)
  then have "black_count blank_page (10, 20, 110, 20) = 0"
    by (simp add: black_count_card)
  then show "line_style (line_entry blank_page ppp (10, 20, 110, 20)) = ''dotted''"
    by (simp add: line_entry_def Let_def detect_line_style_iff)
qed

lemma leftward_segment_diagonal:
  "orientation (line_entry g ppp (110, 20, 10, 19)) = ''diagonal''"
proof -
  define t :: real where "t = arctan (1 / 100)"
  have "arctan (1 / 100) < arctan 1" by (rule arctan_monotone) simp
  then have "t < pi / 4" by (simp add: t_def arctan_one)
  then have "t * (180 / pi) < pi / 4 * (180 / pi)"
    by (rule mult_strict_right_mono) simp
  then have u: "t * 180 / pi < 45" by simp
  have "0 < t" by (simp add: t_def zero_less_arctan_iff)
  then have l: "0 < t * 180 / pi" by simp
  have "segment_angle (110, 20, 10, 19) = t * 180 / pi - 180"
    by (simp add: segment_angle_def arctan2_def t_def diff_divide_distrib)
  with l u have "orientation_of (segment_angle (110, 20, 10, 19)) = ''diagonal''"
    by (simp add: orientation_of_def)
  then show ?thesis
    by (simp add: line_entry_def Let_def)
qed

section \<open>Properties of checkbox detection\<close>








lemma round_small:
  "np_round 0 2 = 0" "np_round 1 2 = 1" "np_round 11 2 = 11"
  "py_round 0 2 = 0" "py_round 20 2 = 20" "py_round 100 2 = 100" "py_round 600 2 = 600"
  by (simp_all add: np_round_def py_round_def round_half_even_def fl_numeral)




section \<open>Properties of background colour detection\<close>

lemma format_02x_byte:
  assumes "0 \<le> n" "n \<le> 255"
  shows "format_02x n = [hex_digit (nat n div 16), hex_digit (nat n mod 16)]"
proof (cases "nat n < 16")
  case True
  then have "hex_of_nat (nat n) = [hex_digit (nat n)]"
    by (simp add: hex_of_nat.simps)
  with True assms show ?thesis
    by (simp add: format_02x_def hex_digit_def)
next
  case False
  with assms have "nat n div 16 < 16" by linarith
  with False have "hex_of_nat (nat n) = [hex_digit (nat n div 16), hex_digit (nat n mod 16)]"
    by (simp add: hex_of_nat.simps [of "nat n"] hex_of_nat.simps [of "nat n div 16"])
  with assms show ?thesis
    by (simp add: format_02x_def)
qed

lemma cluster_entry_props:
  assumes "r \<in> set (cluster_entry ppp positions fit k)"
  shows "3 \<le> region_count r \<and>
         (\<exists>R G B. rgb (color r) = [R, G, B] \<and>
            hex (color r) = ''#'' @ format_02x R @ format_02x G @ format_02x B)"
proof -
  define cp where "cp = map (\<lambda>i. positions ! i)
                (filter (\<lambda>i. color_labels fit i = k) [0..<length positions])"
  obtain c0 c1 c2 where c: "cluster_centers fit k = (c0, c1, c2)"
    by (cases "cluster_centers fit k")
  show ?thesis
  proof (cases "length cp > 2")
    case True
    then have "cluster_entry ppp positions fit k \<noteq> [] \<and>
       (\<forall>r\<in>set (cluster_entry ppp positions fit k). region_count r = length cp \<and>
          rgb (color r) = [py_int c2, py_int c1, py_int c0] \<and>
          hex (color r) = ''#'' @ format_02x (py_int c2) @ format_02x (py_int c1) @ format_02x (py_int c0))"
      unfolding cluster_entry_def cp_def [symmetric] Let_def c
      by simp
    with assms True show ?thesis by auto
  next
    case False
    then have "cluster_entry ppp positions fit k = []"
      unfolding cluster_entry_def cp_def [symmetric] Let_def
      by simp
    with assms show ?thesis by simp
  qed
qed

lemma detect_background_colors_Inr:
  assumes "detect_background_colors estimator img dpi = Inr recs" "r \<in> set recs"
  shows "\<exists>ppp positions fit k. r \<in> set (cluster_entry ppp positions fit k)"
  using assms
  by (auto simp: detect_background_colors_def split: sum.splits option.splits) blast

lemma detect_background_colors_few:
  assumes "detect_background_colors estimator img dpi = Inr recs" "length (sample_regions img) < 2"
  shows "recs = []"
  using assms
  by (auto simp: detect_background_colors_def kmeans_args_def Let_def split: sum.splits option.splits)

text \<open>
  Claim C10. Every record \<open>detect_background_colors\<close> returns has a region count of
  at least 3; its \<open>rgb\<close> entry holds three integers and its \<open>hex\<close> entry is a hash sign
  followed by the two-character lowercase hexadecimal format of each of them, which for
  channel values from 0 to 255 (where the centres of clusters of 8-bit colours lie) is
  the encoding \<open>#rrggbb\<close>. No record is returned when fewer than 2 sampled regions
  pass the filter against near-white regions.
\<close>

theorem detect_background_colors_records:
  assumes run: "detect_background_colors estimator img dpi = Inr recs"
  shows "(\<forall>r\<in>set recs.
            3 \<le> region_count r \<and>
            (\<exists>R G B. rgb (color r) = [R, G, B] \<and>
               hex (color r) = ''#'' @ format_02x R @ format_02x G @ format_02x B \<and>
               (0 \<le> R \<and> R \<le> 255 \<and> 0 \<le> G \<and> G \<le> 255 \<and> 0 \<le> B \<and> B \<le> 255 \<longrightarrow>
                  hex (color r) = hex_rrggbb R G B))) \<and>
         (length (sample_regions img) < 2 \<longrightarrow> recs = [])"
proof (rule conjI)
  show "\<forall>r\<in>set recs.
            3 \<le> region_count r \<and>
            (\<exists>R G B. rgb (color r) = [R, G, B] \<and>
               hex (color r) = ''#'' @ format_02x R @ format_02x G @ format_02x B \<and>
               (0 \<le> R \<and> R \<le> 255 \<and> 0 \<le> G \<and> G \<le> 255 \<and> 0 \<le> B \<and> B \<le> 255 \<longrightarrow>
                  hex (color r) = hex_rrggbb R G B))"
  proof (rule ballI)
    fix r assume "r \<in> set recs"
    with run obtain ppp positions fit k where "r \<in> set (cluster_entry ppp positions fit k)"
      using detect_background_colors_Inr by blast
    from cluster_entry_props [OF this] obtain R G B where
      cnt: "3 \<le> region_count r" and rgb: "rgb (color r) = [R, G, B]"
      and hx: "hex (color r) = ''#'' @ format_02x R @ format_02x G @ format_02x B"
      by blast
    have "hex (color r) = hex_rrggbb R G B"
      if "0 \<le> R \<and> R \<le> 255 \<and> 0 \<le> G \<and> G \<le> 255 \<and> 0 \<le> B \<and> B \<le> 255"
      using that by (simp add: hx format_02x_byte hex_rrggbb_def)
    with cnt rgb hx show "3 \<le> region_count r \<and>
            (\<exists>R G B. rgb (color r) = [R, G, B] \<and>
               hex (color r) = ''#'' @ format_02x R @ format_02x G @ format_02x B \<and>
               (0 \<le> R \<and> R \<le> 255 \<and> 0 \<le> G \<and> G \<le> 255 \<and> 0 \<le> B \<and> B \<le> 255 \<longrightarrow>
                  hex (color r) = hex_rrggbb R G B))"
      by blast
  qed
next
  show "length (sample_regions img) < 2 \<longrightarrow> recs = []"
    using detect_background_colors_few [OF run] by blast
qed

lemma np_mean_const:
  assumes "xs \<noteq> []" "\<And>x. x \<in> set xs \<Longrightarrow> f x = c"
  shows "np_mean (map f xs) = c"
proof -
  have "map f xs = replicate (length xs) c"
    using assms(2) by (induction xs) auto
  then have "sum_list (map f xs) = real (length xs) * c"
    by (simp add: sum_list_replicate)
  with assms(1) show ?thesis by (simp add: np_mean_def)
qed

lemma region_pixels_red:
  assumes "y + 100 \<le> 200" "x + 100 \<le> w"
  shows "region_pixels (red_page w) y x \<noteq> []"
    and "\<And>p. p \<in> set (region_pixels (red_page w) y x) \<Longrightarrow> p = (0, 0, 255)"
proof -
  have eq: "region_pixels (red_page w) y x =
      concat (map (\<lambda>yy. map (\<lambda>xx. (0, 0, 255)) [x..<x + 100]) [y..<y + 100])"
    using assms by (simp add: region_pixels_def red_page_def grid_size_def min_def)
  have "length (region_pixels (red_page w) y x) = 10000"
    unfolding eq by (simp add: length_concat comp_def sum_list_triv)
  then show "region_pixels (red_page w) y x \<noteq> []" by auto
  show "p = (0, 0, 255)" if "p \<in> set (region_pixels (red_page w) y x)" for p
    using that unfolding eq by auto
qed

lemma avg_color_red:
  assumes "y + 100 \<le> 200" "x + 100 \<le> w"
  shows "avg_color_of (region_pixels (red_page w) y x) = (0, 0, 255)"
proof -
  let ?xs = "region_pixels (red_page w) y x"
  have ne: "?xs \<noteq> []" by (rule region_pixels_red(1) [OF assms])
  have all: "p = (0, 0, 255)" if "p \<in> set ?xs" for p
    using that by (rule region_pixels_red(2) [OF assms])
  have "np_mean (map (\<lambda>(b, g, r). real (unat b)) ?xs) = 0"
    by (rule np_mean_const [OF ne]) (auto dest!: all)
  moreover have "np_mean (map (\<lambda>(b, g, r). real (unat g)) ?xs) = 0"
    by (rule np_mean_const [OF ne]) (auto dest!: all)
  moreover have "np_mean (map (\<lambda>(b, g, r). real (unat r)) ?xs) = 255"
    by (rule np_mean_const [OF ne]) (auto dest!: all)
  ultimately show ?thesis by (simp add: avg_color_of_def)
qed

lemma red_is_coloured: "np_mean [0, 0, 255] < 230" "np_std [0, 0, 255] > 10"
proof -
  show m: "np_mean [0, 0, 255] < 230" by (simp add: np_mean_def)
  have "np_mean [0, 0, 255] = 85" by (simp add: np_mean_def)
  then have "np_std [0, 0, 255] = sqrt 14450"
    by (simp add: np_std_def np_mean_def)
  moreover have "(10::real) < sqrt 14450"
    by (rule real_less_rsqrt) simp
  ultimately show "np_std [0, 0, 255] > 10" by simp
qed

lemma region_sample_red:
  assumes "y + 100 \<le> 200" "x + 100 \<le> w"
  shows "region_sample (red_page w) y x = [((0, 0, 255), (x, y, 100, 100))]"
  using region_pixels_red(1) [OF assms] red_is_coloured
  by (simp add: region_sample_def Let_def avg_color_red [OF assms] grid_size_def)

lemma sample_regions_red_300:
  "sample_regions (red_page 300) = [((0, 0, 255), (0, 0, 100, 100)), ((0, 0, 255), (100, 0, 100, 100))]"
  by (simp add: sample_regions_def range_step_def red_page_def grid_size_def upt_rec
      region_sample_red [unfolded red_page_def])

lemma sample_regions_red_700:
  "sample_regions (red_page 700) = map (\<lambda>x. ((0, 0, 255), (x, 0, 100, 100))) [0, 100, 200, 300, 400, 500]"
  by (simp add: sample_regions_def range_step_def red_page_def grid_size_def upt_rec
      region_sample_red [unfolded red_page_def])

lemma kmeans_args_red_300:
  "kmeans_args (red_page 300) =
     Some \<lparr> n_clusters = 2, random_state = 42, n_init = 10, samples = [(0, 0, 255), (0, 0, 255)] \<rparr>"
  by (simp add: kmeans_args_def sample_regions_red_300)

lemma kmeans_args_red_700:
  "kmeans_args (red_page 700) =
     Some \<lparr> n_clusters = 5, random_state = 42, n_init = 10, samples = [(0, 0, 255), (0, 0, 255), (0, 0, 255), (0, 0, 255), (0, 0, 255), (0, 0, 255)] \<rparr>"
  by (simp add: kmeans_args_def sample_regions_red_700)

text \<open>
  Against claim C4 as stated: a red page with two sampled regions is clustered into 2
  clusters, one with six sampled regions into 5.
\<close>

theorem kmeans_cluster_count_counterexample:
  "map_option n_clusters (kmeans_args (red_page 300)) = Some 2 \<and>
   map_option n_clusters (kmeans_args (red_page 700)) = Some 5"
  by (simp add: kmeans_args_red_300 kmeans_args_red_700)

text \<open>
  Claim C4, as amended. The number of clusters passed to \<open>KMeans\<close> is not one constant:
  it is the smaller of 5 and the number of sampled regions that pass the filter, hence
  between 2 and 5, and 5 whenever at least 5 regions pass. The seed is 42 and \<open>n_init\<close>
  is 10 in every call, and the result of \<open>detect_background_colors\<close> depends on the
  estimator only through what it returns on this call.
\<close>

theorem kmeans_cluster_count:
  assumes args: "kmeans_args img = Some call"
  shows "n_clusters call = min 5 (length (sample_regions img)) \<and>
         2 \<le> n_clusters call \<and> n_clusters call \<le> 5 \<and>
         (5 \<le> length (sample_regions img) \<longrightarrow> n_clusters call = 5) \<and>
         random_state call = 42 \<and> n_init call = 10 \<and>
         (\<forall>KMeans KMeans' dpi. KMeans call = KMeans' call \<longrightarrow>
            detect_background_colors (Inr KMeans) img dpi = detect_background_colors (Inr KMeans') img dpi)"
proof -
  from args have long: "\<not> length (sample_regions img) < 2"
    and call: "call = \<lparr> n_clusters = min 5 (length (sample_regions img)), random_state = 42,
                        n_init = 10, samples = map fst (sample_regions img) \<rparr>"
    by (auto simp: kmeans_args_def Let_def split: if_splits)
  have n: "n_clusters call = min 5 (length (sample_regions img))"
    by (simp add: call)
  have same: "detect_background_colors (Inr KMeans) img dpi = detect_background_colors (Inr KMeans') img dpi"
    if "KMeans call = KMeans' call" for KMeans KMeans' dpi
    using that by (simp add: detect_background_colors_def args split: sum.splits)
  show ?thesis
  proof (intro conjI allI impI)
    show "n_clusters call = min 5 (length (sample_regions img))" by (rule n)
    show "2 \<le> n_clusters call" using long by (simp add: n)
    show "n_clusters call \<le> 5" by (simp add: n)
    show "n_clusters call = 5" if "5 \<le> length (sample_regions img)"
      using that by (simp add: n)
    show "random_state call = 42" by (simp add: call)
    show "n_init call = 10" by (simp add: call)
    show "detect_background_colors (Inr KMeans) img dpi = detect_background_colors (Inr KMeans') img dpi"
      if "KMeans call = KMeans' call" for KMeans KMeans' dpi
      using that by (rule same)
  qed
qed

theorem kmeans_cluster_count_witness:
  "kmeans_args (red_page 300) =
     Some \<lparr> n_clusters = 2, random_state = 42, n_init = 10, samples = [(0, 0, 255), (0, 0, 255)] \<rparr> \<and>
   n_clusters \<lparr> n_clusters = 2, random_state = 42, n_init = 10, samples = [(0, 0, 255), (0, 0, 255)] \<rparr>
     = min 5 (length (sample_regions (red_page 300)))"
  by (rule conjI [OF kmeans_args_red_300
        conjunct1 [OF kmeans_cluster_count [OF kmeans_args_red_300]]])

lemma cluster_entry_red_0:
  "cluster_entry 1 (map (\<lambda>x. (x, 0, 100, 100)) [0, 100, 200, 300, 400, 500])
     \<lparr> color_labels = (\<lambda>i. 0), cluster_centers = (\<lambda>k. (0, 0, 255)) \<rparr> 0 = [red_record]"
  by (simp add: cluster_entry_def Let_def upt_rec red_record_def fl_numeral round_small
      py_int_def format_02x_byte hex_digit_def)

lemma cluster_entry_red_other:
  "k \<noteq> 0 \<Longrightarrow>
   cluster_entry 1 (map (\<lambda>x. (x, 0, 100, 100)) [0, 100, 200, 300, 400, 500])
     \<lparr> color_labels = (\<lambda>i. 0), cluster_centers = (\<lambda>k. (0, 0, 255)) \<rparr> k = []"
  by (simp add: cluster_entry_def Let_def)

lemma detect_background_colors_red:
  "detect_background_colors (Inr one_cluster) (red_page 700) 72 = Inr [red_record]"
  using cluster_entry_red_0 cluster_entry_red_other
  by (simp add: detect_background_colors_def points_per_pixel_def kmeans_args_red_700
      one_cluster_def sample_regions_red_700 upt_rec)

theorem detect_background_colors_records_witness:
  "detect_background_colors (Inr one_cluster) (red_page 700) 72 = Inr [red_record] \<and>
   3 \<le> region_count red_record \<and>
   rgb (color red_record) = [255, 0, 0] \<and>
   hex (color red_record) = hex_rrggbb 255 0 0 \<and>
   \<not> length (sample_regions (red_page 700)) < 2"
proof -
  note run = detect_background_colors_red
  from detect_background_colors_records [OF run]
  have "3 \<le> region_count red_record \<and>
        (\<exists>R G B. rgb (color red_record) = [R, G, B] \<and>
           hex (color red_record) = ''#'' @ format_02x R @ format_02x G @ format_02x B \<and>
           (0 \<le> R \<and> R \<le> 255 \<and> 0 \<le> G \<and> G \<le> 255 \<and> 0 \<le> B \<and> B \<le> 255 \<longrightarrow>
              hex (color red_record) = hex_rrggbb R G B))"
    and few: "length (sample_regions (red_page 700)) < 2 \<longrightarrow> [red_record] = []"
    by simp_all
  then obtain R G B where cnt: "3 \<le> region_count red_record"
    and rgb: "rgb (color red_record) = [R, G, B]"
    and enc: "0 \<le> R \<and> R \<le> 255 \<and> 0 \<le> G \<and> G \<le> 255 \<and> 0 \<le> B \<and> B \<le> 255 \<longrightarrow>
              hex (color red_record) = hex_rrggbb R G B"
    by blast
  have val: "rgb (color red_record) = [255, 0, 0]"
    by (simp add: red_record_def)
  with rgb have "R = 255" "G = 0" "B = 0" by simp_all
  with enc have "hex (color red_record) = hex_rrggbb 255 0 0" by simp
  moreover from few have "\<not> length (sample_regions (red_page 700)) < 2" by simp
  ultimately show ?thesis using run cnt val by simp
qed

section \<open>Properties of the entry point\<close>

lemma locations_none:
  assumes "\<And>y x. res_at result y x < threshold"
  shows "locations result = []"
proof -
  have "filter (\<lambda>x. threshold \<le> res_at result y x) xs = []" for y xs
    using assms by (induction xs) (simp_all add: not_le)
  then show ?thesis by (simp add: locations_def)
qed

lemma quiet_lines: "detect_lines (HoughLinesP quiet_libs) g 150 = Inr []"
  by (simp add: detect_lines_def quiet_libs_def)

lemma quiet_colors: "detect_background_colors (sklearn quiet_libs) small_page 150 = Inr []"
  by (simp add: detect_background_colors_def quiet_libs_def points_per_pixel_def kmeans_args_def
      sample_regions_def range_step_def small_page_def grid_size_def)

lemma quiet_checkboxes:
  "detect_checkboxes (matchTemplate quiet_libs) (findContours quiet_libs) g 150 = Inr []"
proof -
  have "locations \<lparr> res_rows = 31, res_cols = 31, res_at = (\<lambda>y x. 0) \<rparr> = []"
    by (rule locations_none) (simp add: threshold_def)
  then show ?thesis
    by (simp add: detect_checkboxes_def quiet_libs_def points_per_pixel_def)
qed

lemma show_nat_digit: "n < 10 \<Longrightarrow> show_nat n = [digit_char n]"
  by (simp add: show_nat.simps)

lemma extract_short_line:
  "extract_pdf_elements (Inr [[\<lparr> item_op = ''l'', item_args = [1, 2] \<rparr>]])
     = Inl (Exception ''ValueError'' ''not enough values to unpack (expected 4, got 2)'')"
  by (simp add: extract_pdf_elements_def unpack4_def show_nat_digit digit_char_def)

lemma quiet_detection:
  assumes "convert_from_path L = convert_from_path quiet_libs" "cvtColor L = cvtColor quiet_libs"
    "HoughLinesP L = HoughLinesP quiet_libs" "sklearn L = sklearn quiet_libs"
    "matchTemplate L = matchTemplate quiet_libs" "findContours L = findContours quiet_libs"
    "PYMUPDF_AVAILABLE L"
  shows "detect_lines_and_colors L path n 150 w = pymupdf_step L path n (results_of [] [] []) w"
proof -
  have conv: "convert_from_path L path 150 (n + 1) (n + 1) = Inr [small_page]"
    by (simp add: assms(1) quiet_libs_def)
  show ?thesis
    unfolding detect_lines_and_colors_def conv Let_def
    by (simp add: assms quiet_lines quiet_colors quiet_checkboxes results_of_def)
qed

text \<open>
  Claim C7 fails on the code. PyMuPDF opens the document, the page holds a line item
  whose slice \<open>item[1:5]\<close> has two values, \<open>extract_pdf_elements\<close> raises, the handler
  prints the error and the function returns its results: \<open>doc.close()\<close> has been skipped
  and the document handle is still open.
\<close>

theorem detect_lines_and_colors_leaves_document_open:
  "detect_lines_and_colors quiet_libs ''f1040.pdf'' 0 150 world0 =
     (Inr (results_of [] [] []),
      \<lparr> stdout = [''PyMuPDF error: not enough values to unpack (expected 4, got 2)''],
        open_documents = 1, files = Map.empty \<rparr>)"
proof -
  have "detect_lines_and_colors quiet_libs ''f1040.pdf'' 0 150 world0
      = pymupdf_step quiet_libs ''f1040.pdf'' 0 (results_of [] [] []) world0"
    by (rule quiet_detection) (simp_all add: quiet_libs_def)
  also have "\<dots> = (Inr (results_of [] [] []),
      \<lparr> stdout = [''PyMuPDF error: not enough values to unpack (expected 4, got 2)''],
        open_documents = 1, files = Map.empty \<rparr>)"
    by (simp add: pymupdf_step_def quiet_libs_def extract_short_line except_pymupdf_def world0_def)
  finally show ?thesis .
qed


lemma detect_lines_and_colors_detected:
  assumes "convert_from_path L path dpi (n + 1) (n + 1) = Inr (img # others)"
    and "detect_lines (HoughLinesP L) (cvtColor L img) dpi = Inr ls"
    and "detect_background_colors (sklearn L) img dpi = Inr cs"
    and "detect_checkboxes (matchTemplate L) (findContours L) (cvtColor L img) dpi = Inr bs"
  shows "detect_lines_and_colors L path n dpi w =
     (if PYMUPDF_AVAILABLE L then pymupdf_step L path n (results_of ls cs bs) w
      else (Inr ((results_of ls cs bs)(''pdf_drawings'' \<mapsto> Drawings [], ''pdf_shapes'' \<mapsto> Shapes [])), w))"
  using assms
  by (simp add: detect_lines_and_colors_def Let_def results_of_def)

text \<open>On the ways through the second method that raise nothing, the document is closed.\<close>

lemma pymupdf_step_closes:
  assumes "fitz_open L path = Inr doc"
    and "n < length doc \<Longrightarrow> extract_pdf_elements (doc ! n) = Inr r"
  shows "snd (pymupdf_step L path n results w) = w"
proof (cases "n < length doc")
  case True
  obtain drawings shapes where "r = (drawings, shapes)" by (cases r)
  with True assms show ?thesis by (simp add: pymupdf_step_def)
next
  case False
  with assms show ?thesis by (simp add: pymupdf_step_def)
qed

text \<open>
  Claim C9. When the conversion to images yields no page, \<open>detect_lines_and_colors\<close>
  returns, with nothing printed or opened, a dictionary whose keys are exactly \<open>lines\<close>,
  \<open>background_colors\<close> and \<open>checkboxes\<close>, each holding the empty list; the keys
  \<open>pdf_drawings\<close> and \<open>pdf_shapes\<close> are absent.
\<close>

theorem detect_lines_and_colors_no_pages:
  assumes "convert_from_path L pdf_path dpi (page_num + 1) (page_num + 1) = Inr []"
  shows "\<exists>results. detect_lines_and_colors L pdf_path page_num dpi w = (Inr results, w) \<and>
           dom results = {''lines'', ''background_colors'', ''checkboxes''} \<and>
           results ''lines'' = Some (Lines []) \<and>
           results ''background_colors'' = Some (Colors []) \<and>
           results ''checkboxes'' = Some (Checkboxes []) \<and>
           results ''pdf_drawings'' = None \<and> results ''pdf_shapes'' = None"
proof -
  have "detect_lines_and_colors L pdf_path page_num dpi w = (Inr (results_of [] [] []), w)"
    using assms by (simp add: detect_lines_and_colors_def results_of_def)
  moreover have "dom (results_of [] [] []) = {''lines'', ''background_colors'', ''checkboxes''}"
    by (auto simp: results_of_def)
  moreover have "results_of [] [] [] ''lines'' = Some (Lines [])"
    "results_of [] [] [] ''background_colors'' = Some (Colors [])"
    "results_of [] [] [] ''checkboxes'' = Some (Checkboxes [])"
    "results_of [] [] [] ''pdf_drawings'' = None" "results_of [] [] [] ''pdf_shapes'' = None"
    by (simp_all add: results_of_def)
  ultimately show ?thesis by blast
qed

theorem detect_lines_and_colors_no_pages_witness:
  "\<exists>results. detect_lines_and_colors no_pages_libs ''f1040.pdf'' 0 150 world0 = (Inr results, world0) \<and>
           dom results = {''lines'', ''background_colors'', ''checkboxes''} \<and>
           results ''lines'' = Some (Lines []) \<and>
           results ''background_colors'' = Some (Colors []) \<and>
           results ''checkboxes'' = Some (Checkboxes []) \<and>
           results ''pdf_drawings'' = None \<and> results ''pdf_shapes'' = None"
proof -
  have "convert_from_path no_pages_libs ''f1040.pdf'' 150 (0 + 1) (0 + 1) = Inr []"
    by (simp add: no_pages_libs_def)
  then show ?thesis by (rule detect_lines_and_colors_no_pages)
qed

lemma lookup_results_of:
  "lookup (results_of ls cs bs) ''lines'' = Inr (Lines ls)"
  "lookup (results_of ls cs bs) ''background_colors'' = Inr (Colors cs)"
  "lookup (results_of ls cs bs) ''checkboxes'' = Inr (Checkboxes bs)"
  by (simp_all add: lookup_def results_of_def)

lemma broken_pdf_run:
  "detect_lines_and_colors broken_pdf_libs ''f1040.pdf'' 0 150 world0 =
     (Inr (results_of [] [] []),
      \<lparr> stdout = [''PyMuPDF error: cannot open broken document''],
        open_documents = 0, files = Map.empty \<rparr>)"
proof -
  have "detect_lines_and_colors broken_pdf_libs ''f1040.pdf'' 0 150 world0
      = pymupdf_step broken_pdf_libs ''f1040.pdf'' 0 (results_of [] [] []) world0"
    by (rule quiet_detection) (simp_all add: broken_pdf_libs_def quiet_libs_def)
  also have "\<dots> = (Inr (results_of [] [] []),
      \<lparr> stdout = [''PyMuPDF error: cannot open broken document''],
        open_documents = 0, files = Map.empty \<rparr>)"
    by (simp add: pymupdf_step_def broken_pdf_libs_def except_pymupdf_def world0_def)
  finally show ?thesis .
qed

text \<open>
  Against claim C3 as stated: PyMuPDF fails to open the file inside
  \<open>detect_lines_and_colors\<close>; the inner handler prints the error and the function
  returns the detections without the PDF keys; the main block goes on to write the file
  and print the counts, and its own handler prints nothing.
\<close>

theorem exception_handling_counterexample:
  "detect_lines_and_colors broken_pdf_libs ''f1040.pdf'' 0 150 world0 =
     (Inr (results_of [] [] []),
      \<lparr> stdout = [''PyMuPDF error: cannot open broken document''],
        open_documents = 0, files = Map.empty \<rparr>) \<and>
   main broken_pdf_libs world0 =
     (Inr (),
      \<lparr> stdout = [''PyMuPDF error: cannot open broken document'',
                  ''Detected 0 lines'', ''Detected 0 colored regions'',
                  ''Detected 0 potential checkboxes''],
        open_documents = 0,
        files = [''detected_elements.json'' \<mapsto> ''{}''] \<rparr>)"
proof -
  have opn: "open_w broken_pdf_libs ''detected_elements.json'' = None"
    and dmp: "json_dump broken_pdf_libs (results_of [] [] []) = (''{}'', None)"
    by (simp_all add: broken_pdf_libs_def quiet_libs_def)
  have "main broken_pdf_libs world0 =
     (Inr (),
      \<lparr> stdout = [''PyMuPDF error: cannot open broken document'',
                  ''Detected 0 lines'', ''Detected 0 colored regions'',
                  ''Detected 0 potential checkboxes''],
        open_documents = 0,
        files = [''detected_elements.json'' \<mapsto> ''{}''] \<rparr>)"
    unfolding main_def broken_pdf_run
    by (simp add: opn dmp lookup_results_of print_first_line_def show_nat_digit digit_char_def)
  with broken_pdf_run show ?thesis by (rule conjI)
qed


lemma main_handles:
  assumes "detect_lines_and_colors L ''f1040.pdf'' 0 150 w = (Inl e, w1)" "is_Exception e"
  shows "main L w = (Inr (), w1\<lparr> stdout := stdout w1 @
            [''Error processing PDF: '' @ exn_str e,
             ''Make sure you have installed: pip install opencv-python pdf2image PyMuPDF pillow''] \<rparr>)"
  using assms by (simp add: main_def top_level_handler_def)

lemma convert_raises:
  assumes "convert_from_path L path dpi (n + 1) (n + 1) = Inl e"
  shows "detect_lines_and_colors L path n dpi w = (Inl e, w)"
  using assms by (simp add: detect_lines_and_colors_def)

lemma detect_lines_raises:
  assumes "convert_from_path L path dpi (n + 1) (n + 1) = Inr (img # others)"
    and "detect_lines (HoughLinesP L) (cvtColor L img) dpi = Inl e"
  shows "detect_lines_and_colors L path n dpi w = (Inl e, w)"
  using assms by (simp add: detect_lines_and_colors_def)

lemma detect_background_colors_raises:
  assumes "convert_from_path L path dpi (n + 1) (n + 1) = Inr (img # others)"
    and "detect_lines (HoughLinesP L) (cvtColor L img) dpi = Inr ls"
    and "detect_background_colors (sklearn L) img dpi = Inl e"
  shows "detect_lines_and_colors L path n dpi w = (Inl e, w)"
  using assms by (simp add: detect_lines_and_colors_def)

lemma detect_checkboxes_raises:
  assumes "convert_from_path L path dpi (n + 1) (n + 1) = Inr (img # others)"
    and "detect_lines (HoughLinesP L) (cvtColor L img) dpi = Inr ls"
    and "detect_background_colors (sklearn L) img dpi = Inr cs"
    and "detect_checkboxes (matchTemplate L) (findContours L) (cvtColor L img) dpi = Inl e"
  shows "detect_lines_and_colors L path n dpi w = (Inl e, w)"
  using assms by (simp add: detect_lines_and_colors_def)

lemma fitz_open_caught:
  assumes "convert_from_path L path dpi (n + 1) (n + 1) = Inr (img # others)"
    and "detect_lines (HoughLinesP L) (cvtColor L img) dpi = Inr ls"
    and "detect_background_colors (sklearn L) img dpi = Inr cs"
    and "detect_checkboxes (matchTemplate L) (findContours L) (cvtColor L img) dpi = Inr bs"
    and "PYMUPDF_AVAILABLE L" and "is_Exception e"
    and "fitz_open L path = Inl e"
  shows "detect_lines_and_colors L path n dpi w =
     (Inr (results_of ls cs bs), w\<lparr> stdout := stdout w @ [''PyMuPDF error: '' @ exn_str e] \<rparr>)"
  unfolding detect_lines_and_colors_detected [OF assms(1-4)]
  using assms(5-7) by (simp add: pymupdf_step_def except_pymupdf_def)

lemma extract_caught:
  assumes "convert_from_path L path dpi (n + 1) (n + 1) = Inr (img # others)"
    and "detect_lines (HoughLinesP L) (cvtColor L img) dpi = Inr ls"
    and "detect_background_colors (sklearn L) img dpi = Inr cs"
    and "detect_checkboxes (matchTemplate L) (findContours L) (cvtColor L img) dpi = Inr bs"
    and "PYMUPDF_AVAILABLE L" and "is_Exception e"
    and "fitz_open L path = Inr doc" and "n < length doc"
    and "extract_pdf_elements (doc ! n) = Inl e"
  shows "fst (detect_lines_and_colors L path n dpi w) = Inr (results_of ls cs bs) \<and>
         stdout (snd (detect_lines_and_colors L path n dpi w))
           = stdout w @ [''PyMuPDF error: '' @ exn_str e]"
  unfolding detect_lines_and_colors_detected [OF assms(1-4)]
  using assms(5-9) by (simp add: pymupdf_step_def except_pymupdf_def)

lemma clustering_dropped:
  assumes "kmeans_args img = Some call" "KMeans call = Inl e" "dpi \<noteq> 0"
  shows "detect_background_colors (Inr KMeans) img dpi = Inr []"
  using assms by (simp add: detect_background_colors_def points_per_pixel_def)

text \<open>
  Claim C3, as amended. The handler of the main block catches every \<open>Exception\<close> that
  leaves \<open>detect_lines_and_colors\<close> and prints the diagnostic message and the
  installation hint. What the conversion to images, \<open>detect_lines\<close>,
  \<open>detect_background_colors\<close> (outside its clustering block) and \<open>detect_checkboxes\<close>
  raise leaves \<open>detect_lines_and_colors\<close> uncaught. Two inner handlers recover and go
  on with a partial result: an \<open>Exception\<close> of \<open>fitz.open\<close> or of
  \<open>extract_pdf_elements\<close> is printed as a PyMuPDF error and the detections are returned
  without the PDF keys; whatever the clustering call raises is dropped and no colour
  record is returned.
\<close>

theorem exception_handling:
  "(detect_lines_and_colors L ''f1040.pdf'' 0 150 w = (Inl e, w') \<longrightarrow> is_Exception e \<longrightarrow>
      main L w = (Inr (), w'\<lparr> stdout := stdout w' @
            [''Error processing PDF: '' @ exn_str e,
             ''Make sure you have installed: pip install opencv-python pdf2image PyMuPDF pillow''] \<rparr>)) \<and>
   (convert_from_path L path dpi (n + 1) (n + 1) = Inl e \<longrightarrow>
      detect_lines_and_colors L path n dpi w = (Inl e, w)) \<and>
   (convert_from_path L path dpi (n + 1) (n + 1) = Inr (img # others) \<longrightarrow>
      (detect_lines (HoughLinesP L) (cvtColor L img) dpi = Inl e \<longrightarrow>
         detect_lines_and_colors L path n dpi w = (Inl e, w)) \<and>
      (detect_lines (HoughLinesP L) (cvtColor L img) dpi = Inr ls \<longrightarrow>
         (detect_background_colors (sklearn L) img dpi = Inl e \<longrightarrow>
            detect_lines_and_colors L path n dpi w = (Inl e, w)) \<and>
         (detect_background_colors (sklearn L) img dpi = Inr cs \<longrightarrow>
            (detect_checkboxes (matchTemplate L) (findContours L) (cvtColor L img) dpi = Inl e \<longrightarrow>
               detect_lines_and_colors L path n dpi w = (Inl e, w)) \<and>
            (detect_checkboxes (matchTemplate L) (findContours L) (cvtColor L img) dpi = Inr bs \<longrightarrow>
             PYMUPDF_AVAILABLE L \<longrightarrow> is_Exception e \<longrightarrow>
               (fitz_open L path = Inl e \<longrightarrow>
                  detect_lines_and_colors L path n dpi w =
                    (Inr (results_of ls cs bs),
                     w\<lparr> stdout := stdout w @ [''PyMuPDF error: '' @ exn_str e] \<rparr>)) \<and>
               (fitz_open L path = Inr doc \<longrightarrow> n < length doc \<longrightarrow>
                extract_pdf_elements (doc ! n) = Inl e \<longrightarrow>
                  fst (detect_lines_and_colors L path n dpi w) = Inr (results_of ls cs bs) \<and>
                  stdout (snd (detect_lines_and_colors L path n dpi w))
                    = stdout w @ [''PyMuPDF error: '' @ exn_str e]))))) \<and>
   (kmeans_args img = Some call \<longrightarrow> KMeans call = Inl e \<longrightarrow> dpi \<noteq> 0 \<longrightarrow>
      detect_background_colors (Inr KMeans) img dpi = Inr [])"
  using main_handles [of L w e w'] convert_raises [of L path dpi n e w]
    detect_lines_raises [of L path dpi n img others e w]
    detect_background_colors_raises [of L path dpi n img others ls e w]
    detect_checkboxes_raises [of L path dpi n img others ls cs e w]
    fitz_open_caught [of L path dpi n img others ls cs bs e w]
    extract_caught [of L path dpi n img others ls cs bs e doc w]
    clustering_dropped [of img call KMeans e dpi]
  by blast


theorem exception_handling_witness:
  "main no_poppler_libs world0 =
     (Inr (), world0\<lparr> stdout := stdout world0 @
        [''Error processing PDF: '' @ exn_str (Exception ''PDFInfoNotInstalledError''
            ''Unable to get page count. Is poppler installed and in PATH?''),
         ''Make sure you have installed: pip install opencv-python pdf2image PyMuPDF pillow''] \<rparr>) \<and>
   detect_lines_and_colors broken_pdf_libs ''f1040.pdf'' 0 150 world0 =
     (Inr (results_of [] [] []),
      world0\<lparr> stdout := stdout world0 @
        [''PyMuPDF error: '' @ exn_str (Exception ''FileDataError'' ''cannot open broken document'')] \<rparr>) \<and>
   fst (detect_lines_and_colors quiet_libs ''f1040.pdf'' 0 150 world0) = Inr (results_of [] [] []) \<and>
   stdout (snd (detect_lines_and_colors quiet_libs ''f1040.pdf'' 0 150 world0)) =
     stdout world0 @ [''PyMuPDF error: '' @ exn_str (Exception ''ValueError''
        ''not enough values to unpack (expected 4, got 2)'')] \<and>
   detect_background_colors (Inr (\<lambda>call. Inl (Exception ''ValueError'' ''bad input''))) (red_page 300) 150
     = Inr []"
proof -
  let ?poppler = "Exception ''PDFInfoNotInstalledError''
      ''Unable to get page count. Is poppler installed and in PATH?''"
  let ?broken = "Exception ''FileDataError'' ''cannot open broken document''"
  let ?short = "Exception ''ValueError'' ''not enough values to unpack (expected 4, got 2)''"
  let ?bad = "Exception ''ValueError'' ''bad input''"
  let ?item = "\<lparr> item_op = ''l'', item_args = [1, 2] \<rparr>"
  have conv: "convert_from_path no_poppler_libs ''f1040.pdf'' 150 (0 + 1) (0 + 1) = Inl ?poppler"
    by (simp add: no_poppler_libs_def)
  have exc: "is_Exception ?poppler" "is_Exception ?broken" "is_Exception ?short"
    by simp_all
  from conv have run: "detect_lines_and_colors no_poppler_libs ''f1040.pdf'' 0 150 world0 = (Inl ?poppler, world0)"
    using exception_handling [where L = no_poppler_libs and path = "''f1040.pdf''" and dpi = 150
        and n = 0 and e = ?poppler and w = world0]
    by blast
  have a: "main no_poppler_libs world0 =
     (Inr (), world0\<lparr> stdout := stdout world0 @
        [''Error processing PDF: '' @ exn_str ?poppler,
         ''Make sure you have installed: pip install opencv-python pdf2image PyMuPDF pillow''] \<rparr>)"
    using run exc(1)
      exception_handling [where L = no_poppler_libs and e = ?poppler and w = world0 and w' = world0]
    by blast
  have pages: "convert_from_path broken_pdf_libs ''f1040.pdf'' 150 (0 + 1) (0 + 1) = Inr (small_page # [])"
    "convert_from_path quiet_libs ''f1040.pdf'' 150 (0 + 1) (0 + 1) = Inr (small_page # [])"
    by (simp_all add: broken_pdf_libs_def quiet_libs_def)
  have same: "HoughLinesP broken_pdf_libs = HoughLinesP quiet_libs"
    "sklearn broken_pdf_libs = sklearn quiet_libs"
    "matchTemplate broken_pdf_libs = matchTemplate quiet_libs"
    "findContours broken_pdf_libs = findContours quiet_libs"
    by (simp_all add: broken_pdf_libs_def)
  have avail: "PYMUPDF_AVAILABLE broken_pdf_libs" "PYMUPDF_AVAILABLE quiet_libs"
    by (simp_all add: broken_pdf_libs_def quiet_libs_def)
  have fopen: "fitz_open broken_pdf_libs ''f1040.pdf'' = Inl ?broken"
    "fitz_open quiet_libs ''f1040.pdf'' = Inr [Inr [[?item]]]"
    by (simp_all add: broken_pdf_libs_def quiet_libs_def)
  have b: "detect_lines_and_colors broken_pdf_libs ''f1040.pdf'' 0 150 world0 =
     (Inr (results_of [] [] []),
      world0\<lparr> stdout := stdout world0 @ [''PyMuPDF error: '' @ exn_str ?broken] \<rparr>)"
    using pages(1) quiet_lines quiet_colors quiet_checkboxes avail(1) exc(2) fopen(1)
      exception_handling [where L = broken_pdf_libs and path = "''f1040.pdf''" and dpi = 150
        and n = 0 and e = ?broken and w = world0 and img = small_page and others = "[]"
        and ls = "[]" and cs = "[]" and bs = "[]"]
    unfolding same by blast
  have page0: "(0::nat) < length [Inr [[?item]] :: fitz_page]"
    "extract_pdf_elements ([Inr [[?item]]] ! 0) = Inl ?short"
    by (simp_all add: extract_short_line)
  have c: "fst (detect_lines_and_colors quiet_libs ''f1040.pdf'' 0 150 world0) = Inr (results_of [] [] []) \<and>
     stdout (snd (detect_lines_and_colors quiet_libs ''f1040.pdf'' 0 150 world0)) =
       stdout world0 @ [''PyMuPDF error: '' @ exn_str ?short]"
    using pages(2) quiet_lines quiet_colors quiet_checkboxes avail(2) exc(3) fopen(2) page0
      exception_handling [where L = quiet_libs and path = "''f1040.pdf''" and dpi = 150
        and n = 0 and e = ?short and w = world0 and img = small_page and others = "[]"
        and ls = "[]" and cs = "[]" and bs = "[]" and doc = "[Inr [[?item]]]"]
    by blast
  have d: "detect_background_colors (Inr (\<lambda>call. Inl ?bad)) (red_page 300) 150 = Inr []"
    using kmeans_args_red_300
      exception_handling [where img = "red_page 300" and KMeans = "\<lambda>call. Inl ?bad" and e = ?bad
        and dpi = 150]
    by simp
  from a b c d show ?thesis by blast
qed

section \<open>Properties of the text script\<close>

lemma pages_loop_good:
  "pages_loop out i (map Inr good) =
     Inr (out @ map (\<lambda>(k, words). (''page_'' @ show_nat (k + 1), words)) (enumerate i good))"
  by (induction good arbitrary: out i) simp_all

lemma pages_loop_bad:
  "pages_loop out i (map Inr good @ Inl e # rest) = Inl e"
  by (induction good arbitrary: out i) simp_all

lemma text_parser_open_raises:
  assumes "pdfplumber_open T ''f1040.pdf'' = Inl e"
  shows "text_parser T w = (Inl e, w)"
  using assms by (simp add: text_parser_def)

lemma text_parser_page_raises:
  assumes "pdfplumber_open T ''f1040.pdf'' = Inr (map Inr good @ Inl e # rest)"
  shows "text_parser T w = (Inl e, w)"
  using assms by (simp add: text_parser_def pages_loop_bad)

lemma text_parser_output_raises:
  assumes "pdfplumber_open T ''f1040.pdf'' = Inr (map Inr good)"
    and "open_w_text T ''f1040_words.json'' = Some e"
  shows "text_parser T w = (Inl e, w)"
  using assms by (simp add: text_parser_def pages_loop_good)

lemma text_parser_dump_raises:
  assumes "pdfplumber_open T ''f1040.pdf'' = Inr (map Inr good)"
    and "open_w_text T ''f1040_words.json'' = None"
    and "json_dump_words T (output_of good) = (written, Some e)"
  shows "text_parser T w = (Inl e, w\<lparr> files := (files w)(''f1040_words.json'' \<mapsto> written) \<rparr>)"
  using assms by (simp add: text_parser_def pages_loop_good output_of_def)

text \<open>
  Claim C6, as amended. The text script handles no exception: what \<open>pdfplumber.open\<close>
  raises, what \<open>extract_words\<close> raises on the first page where it fails, what opening
  the output file raises and what writing the JSON text raises all leave the script.
  In the first three cases the output file is untouched; when the writing raises, the
  output file has been opened for writing and holds the text written before the
  exception.
\<close>

theorem text_parser_exceptions:
  "(pdfplumber_open T ''f1040.pdf'' = Inl e \<longrightarrow> text_parser T w = (Inl e, w)) \<and>
   (pdfplumber_open T ''f1040.pdf'' = Inr (map Inr good @ Inl e # rest) \<longrightarrow>
      text_parser T w = (Inl e, w)) \<and>
   (pdfplumber_open T ''f1040.pdf'' = Inr (map Inr good) \<longrightarrow>
      (open_w_text T ''f1040_words.json'' = Some e \<longrightarrow> text_parser T w = (Inl e, w)) \<and>
      (open_w_text T ''f1040_words.json'' = None \<longrightarrow>
       json_dump_words T (output_of good) = (written, Some e) \<longrightarrow>
         text_parser T w = (Inl e, w\<lparr> files := (files w)(''f1040_words.json'' \<mapsto> written) \<rparr>)))"
  using text_parser_open_raises [of T e w] text_parser_page_raises [of T good e rest w]
    text_parser_output_raises [of T good e w] text_parser_dump_raises [of T good written e w]
  by blast

lemma disk_full_run:
  "text_parser disk_full_libs world0 =
     (Inl (Exception ''OSError'' ''No space left on device''),
      \<lparr> stdout = [], open_documents = 0, files = [''f1040_words.json'' \<mapsto> ''{''] \<rparr>)"
  by (simp add: text_parser_def disk_full_libs_def world0_def)

text \<open>
  Against claim C6 as stated: the writing of the JSON text raises after its first
  character; the exception leaves the script and the output file, absent before, now
  holds that character.
\<close>

theorem text_parser_exceptions_counterexample:
  "fst (text_parser disk_full_libs world0) = Inl (Exception ''OSError'' ''No space left on device'') \<and>
   files world0 ''f1040_words.json'' = None \<and>
   files (snd (text_parser disk_full_libs world0)) ''f1040_words.json'' = Some ''{''"
  unfolding disk_full_run by (simp add: world0_def)

theorem text_parser_exceptions_witness:
  "text_parser unreadable_libs world0 = (Inl (Exception ''FileNotFoundError'' ''f1040.pdf''), world0) \<and>
   text_parser bad_page_libs world0 = (Inl (Exception ''PDFSyntaxError'' ''bad page''), world0) \<and>
   text_parser disk_full_libs world0 =
     (Inl (Exception ''OSError'' ''No space left on device''),
      world0\<lparr> files := (files world0)(''f1040_words.json'' \<mapsto> ''{'') \<rparr>)"
proof -
  have a: "text_parser unreadable_libs world0 = (Inl (Exception ''FileNotFoundError'' ''f1040.pdf''), world0)"
    using text_parser_exceptions [where T = unreadable_libs and w = world0
        and e = "Exception ''FileNotFoundError'' ''f1040.pdf''"]
    by (simp add: unreadable_libs_def)
  have "pdfplumber_open bad_page_libs ''f1040.pdf''
      = Inr (map Inr [[''Form'']] @ Inl (Exception ''PDFSyntaxError'' ''bad page'') # [])"
    by (simp add: bad_page_libs_def)
  then have b: "text_parser bad_page_libs world0 = (Inl (Exception ''PDFSyntaxError'' ''bad page''), world0)"
    using text_parser_exceptions [where T = bad_page_libs and w = world0
        and e = "Exception ''PDFSyntaxError'' ''bad page''" and good = "[[''Form'']]" and rest = "[]"]
    by blast
  have "pdfplumber_open disk_full_libs ''f1040.pdf'' = Inr (map Inr [[''Form'']])"
    "open_w_text disk_full_libs ''f1040_words.json'' = None"
    "json_dump_words disk_full_libs (output_of [[''Form'']])
       = (''{'', Some (Exception ''OSError'' ''No space left on device''))"
    by (simp_all add: disk_full_libs_def)
  then have c: "text_parser disk_full_libs world0 =
     (Inl (Exception ''OSError'' ''No space left on device''),
      world0\<lparr> files := (files world0)(''f1040_words.json'' \<mapsto> ''{'') \<rparr>)"
    using text_parser_exceptions [where T = disk_full_libs and w = world0
        and e = "Exception ''OSError'' ''No space left on device''" and good = "[[''Form'']]"
        and written = "''{''"]
    by blast
  from a b c show ?thesis by blast
qed

end
